theory Spec2Isabelle
  imports Main "HOL-Library.Word"
begin

section \<open>Clock readings and durations\<close>

text \<open>
  A \<open>time.Time\<close> is modelled by its reading in nanoseconds, a \<open>time.Duration\<close> by the
  \<open>int64\<close> count of nanoseconds it is in Go. \<open>Time.Sub\<close> saturates at the two ends of
  the \<open>int64\<close> range instead of wrapping.
\<close>

type_synonym time = int
type_synonym Duration = int

definition Second :: Duration where
  "Second = 1000000000"

definition Minute :: Duration where
  "Minute = 60 * Second"

definition minDuration :: Duration where
  "minDuration = - (2 ^ 63)"

definition maxDuration :: Duration where
  "maxDuration = 2 ^ 63 - 1"

definition Sub :: "time \<Rightarrow> time \<Rightarrow> Duration" where
  "Sub t u = max minDuration (min maxDuration (t - u))"

text \<open>
  \<open>time.Time{}\<close>, the zero time, read on the Unix clock.
\<close>

definition zero_Time :: time where
  "zero_Time = - 62135596800 * Second"


section \<open>The state store (internal/lti/state.go)\<close>

record StateData =
  Nonce :: string
  TargetLinkURI :: string
  ClientID :: string
  CreatedAt :: time

text \<open>
  The store's map holds pointers (\<open>map[string]*StateData\<close>) and \<open>Store\<close> writes through
  the pointer it is given, so the \<open>StateData\<close> objects live in an explicit heap:
  \<open>cell h p\<close> is the object at address \<open>p\<close>, and \<open>next_ptr h\<close> the first address that
  \<open>&StateData{...}\<close> has not handed out yet. A pointer argument is a \<open>ptr option\<close>,
  \<open>None\<close> being \<open>nil\<close>.
\<close>

type_synonym ptr = nat

record Heap =
  cell :: "ptr \<Rightarrow> StateData"
  next_ptr :: ptr

record StateStore =
  states :: "string \<rightharpoonup> ptr"

datatype panic = NilPointerDereference

definition NewStateStore :: StateStore where
  "NewStateStore = \<lparr>states = Map.empty\<rparr>"

text \<open>\<open>Store\<close>: \<open>data.CreatedAt = time.Now(); s.states[state] = data\<close>.\<close>

fun Store :: "time \<Rightarrow> string \<Rightarrow> ptr option \<Rightarrow> Heap \<times> StateStore \<Rightarrow> panic + Heap \<times> StateStore" where
  "Store now state None (h, s) = Inl NilPointerDereference"
| "Store now state (Some p) (h, s) =
     Inr (h\<lparr>cell := (cell h)(p := (cell h p)\<lparr>CreatedAt := now\<rparr>)\<rparr>,
          s\<lparr>states := (states s)(state \<mapsto> p)\<rparr>)"

text \<open>
  \<open>Get\<close>: \<open>data, ok := s.states[state]; if ok { delete(s.states, state) }; return data, ok\<close>.
  The pair \<open>(data, ok)\<close> is the \<open>ptr option\<close> of the first component; the clock is not
  read.
\<close>

definition Get :: "string \<Rightarrow> StateStore \<Rightarrow> ptr option \<times> StateStore" where
  "Get state s =
     (case states s state of
        None \<Rightarrow> (None, s)
      | Some p \<Rightarrow> (Some p, s\<lparr>states := (states s)(state := None)\<rparr>))"

definition Peek :: "string \<Rightarrow> StateStore \<Rightarrow> ptr option" where
  "Peek state s = states s state"

text \<open>
  \<open>cleanup\<close> loops over the ticker for ever; \<open>cleanup_tick\<close> is the body it runs at one
  tick, at clock reading \<open>now\<close>: every entry with
  \<open>now.Sub(data.CreatedAt) > 10*time.Minute\<close> is deleted.
\<close>

definition expired :: "time \<Rightarrow> StateData \<Rightarrow> bool" where
  "expired now d \<longleftrightarrow> Sub now (CreatedAt d) > 10 * Minute"

definition cleanup_tick :: "time \<Rightarrow> Heap \<Rightarrow> StateStore \<Rightarrow> StateStore" where
  "cleanup_tick now h s =
     s\<lparr>states := (\<lambda>state. case states s state of
                       None \<Rightarrow> None
                     | Some p \<Rightarrow> if expired now (cell h p) then None else Some p)\<rparr>"

text \<open>
  The store is driven by calls of its methods and by ticks of the cleanup goroutine, all
  serialised by the mutex. A history is a list of such events, each at its clock reading.
\<close>

datatype call = CallStore string "ptr option" | CallGet string | CallPeek string | Tick

fun step :: "time \<times> call \<Rightarrow> Heap \<times> StateStore \<Rightarrow> panic + Heap \<times> StateStore" where
  "step (now, CallStore state data) (h, s) = Store now state data (h, s)"
| "step (now, CallGet state) (h, s) = Inr (h, snd (Get state s))"
| "step (now, CallPeek state) (h, s) = Inr (h, s)"
| "step (now, Tick) (h, s) = Inr (h, cleanup_tick now h s)"

fun run :: "(time \<times> call) list \<Rightarrow> Heap \<times> StateStore \<Rightarrow> panic + Heap \<times> StateStore" where
  "run [] hs = Inr hs"
| "run (c # cs) hs = (case step c hs of Inl e \<Rightarrow> Inl e | Inr hs' \<Rightarrow> run cs hs')"

definition stores_state :: "string \<Rightarrow> time \<times> call \<Rightarrow> bool" where
  "stores_state state c = (case snd c of CallStore state' data \<Rightarrow> state' = state | _ \<Rightarrow> False)"

definition stores_object :: "ptr \<Rightarrow> time \<times> call \<Rightarrow> bool" where
  "stores_object p c = (case snd c of CallStore state data \<Rightarrow> data = Some p | _ \<Rightarrow> False)"

definition zero_StateData :: StateData where
  "zero_StateData = \<lparr>Nonce = [], TargetLinkURI = [], ClientID = [], CreatedAt = zero_Time\<rparr>"

definition empty_Heap :: Heap where
  "empty_Heap = \<lparr>cell = (\<lambda>p. zero_StateData), next_ptr = 0\<rparr>"

definition entry_CreatedAt :: "Heap \<times> StateStore \<Rightarrow> string \<Rightarrow> time option" where
  "entry_CreatedAt hs state = map_option (\<lambda>p. CreatedAt (cell (fst hs) p)) (states (snd hs) state)"

subsection \<open>Example data\<close>

definition ex_store :: StateStore where
  "ex_store = \<lparr>states = [''st'' \<mapsto> 0]\<rparr>"

definition ex_heap :: Heap where
  "ex_heap =
     \<lparr>cell = (\<lambda>p. \<lparr>Nonce = ''nonce-1'', TargetLinkURI = ''https://app.com/launch'',
                     ClientID = ''client-123'', CreatedAt = 0\<rparr>),
      next_ptr = 1\<rparr>"

definition ex_calls :: "(time \<times> call) list" where
  "ex_calls = [(1, CallGet ''st''), (2, Tick), (3, CallStore ''other'' (Some 1)), (4, CallPeek ''st'')]"


section \<open>Errors\<close>

text \<open>
  Go's \<open>error\<close> values, as far as the code tells them apart: the messages built with
  \<open>fmt.Errorf\<close> (\<open>Wrap\<close> for the \<open>%w\<close> form), the sentinel errors of the JWT parser and
  those of the database layer.
\<close>

datatype claim_error =
    ErrTokenExpired
  | ErrTokenNotValidYet
  | ErrTokenInvalidAudience
  | ErrTokenInvalidIssuer
  | ErrTokenRequiredClaimMissing string

datatype error =
    Errorf string
  | Wrap string error
  | ErrTokenMalformed
  | ErrTokenUnverifiable error
  | ErrTokenSignatureInvalid
  | ErrTokenInvalidClaims "claim_error list"
  | ErrInvalidKeyType
  | ErrRecordNotFound
  | ErrConstraintFailed string


section \<open>JSON Web Tokens, as the repository uses github.com/golang-jwt/jwt/v5\<close>

text \<open>
  The parser and the signing methods belong to the JWT library, not to the repository. They
  are modelled by the steps \<open>Parser.ParseWithClaims\<close> takes, in its order: decode the three
  segments, look the \<open>alg\<close> header up among the registered methods, call the key function,
  verify the signature, validate the registered claims. The hash functions and the
  asymmetric signatures stay parameters (\<open>crypto\<close>): nothing is assumed of them in the
  definitions.

  A token string is represented by what the decoding step makes of it. Either it has three
  base64url segments of which the first two hold a JSON header and a JSON claims object:
  then it is \<open>Compact ss hdr c sig\<close>, with \<open>ss\<close> the text of the first two segments (the
  signing input), \<open>hdr\<close> and \<open>c\<close> what they decode to and \<open>sig\<close> the decoded third segment.
  Or it has not: \<open>Garbage\<close>.
\<close>

datatype hmac_hash = SHA256 | SHA384 | SHA512

datatype SigningMethod = SigningMethodHMAC hmac_hash | SigningMethodOther string

definition SigningMethodHS256 :: SigningMethod where
  "SigningMethodHS256 = SigningMethodHMAC SHA256"

fun Alg :: "SigningMethod \<Rightarrow> string" where
  "Alg (SigningMethodHMAC SHA256) = ''HS256''"
| "Alg (SigningMethodHMAC SHA384) = ''HS384''"
| "Alg (SigningMethodHMAC SHA512) = ''HS512''"
| "Alg (SigningMethodOther a) = a"

text \<open>The methods the library registers at start-up, by their \<open>alg\<close> names.\<close>

definition GetSigningMethod :: "string \<Rightarrow> SigningMethod option" where
  "GetSigningMethod alg =
     (if alg = ''HS256'' then Some (SigningMethodHMAC SHA256)
      else if alg = ''HS384'' then Some (SigningMethodHMAC SHA384)
      else if alg = ''HS512'' then Some (SigningMethodHMAC SHA512)
      else if alg \<in> set [''RS256'', ''RS384'', ''RS512'', ''PS256'', ''PS384'', ''PS512'',
                           ''ES256'', ''ES384'', ''ES512'', ''EdDSA'', ''none'']
      then Some (SigningMethodOther alg)
      else None)"

datatype key = BytesKey string | OtherKey string

record crypto =
  hash :: "hmac_hash \<Rightarrow> string \<Rightarrow> string"
  sign_other :: "string \<Rightarrow> string \<Rightarrow> key \<Rightarrow> error + string"
  verify_other :: "string \<Rightarrow> string \<Rightarrow> string \<Rightarrow> key \<Rightarrow> bool"

text \<open>
  HMAC as \<open>crypto/hmac\<close> computes it over a hash function (\<open>hash\<close>, a parameter): a key
  longer than the hash's block is hashed first, the key is then filled up with zero bytes to
  the length of the block, and the MAC is the hash of the key xor \<open>0x5c\<close> followed by the
  hash of the key xor \<open>0x36\<close> followed by the message.
\<close>

fun BlockSize :: "hmac_hash \<Rightarrow> nat" where
  "BlockSize SHA256 = 64"
| "BlockSize SHA384 = 128"
| "BlockSize SHA512 = 128"

definition xor_byte :: "nat \<Rightarrow> char \<Rightarrow> char" where
  "xor_byte w b = char_of (xor (of_char b :: nat) w)"

definition hmac_key :: "crypto \<Rightarrow> hmac_hash \<Rightarrow> string \<Rightarrow> string" where
  "hmac_key cr h k =
     (let k0 = (if length k > BlockSize h then hash cr h k else k)
      in k0 @ replicate (BlockSize h - length k0) (CHR 0x00))"

definition hmac :: "crypto \<Rightarrow> hmac_hash \<Rightarrow> string \<Rightarrow> string \<Rightarrow> string" where
  "hmac cr h k msg =
     (let ipad = map (xor_byte 0x36) (hmac_key cr h k);
          opad = map (xor_byte 0x5c) (hmac_key cr h k)
      in hash cr h (opad @ hash cr h (ipad @ msg)))"

text \<open>
  \<open>SigningMethodHMAC.Sign\<close> and \<open>Verify\<close> want a \<open>[]byte\<close> key; \<open>Verify\<close> computes the MAC of
  the signing input again and compares.
\<close>

fun Sign :: "crypto \<Rightarrow> SigningMethod \<Rightarrow> string \<Rightarrow> key \<Rightarrow> error + string" where
  "Sign cr (SigningMethodHMAC h) ss (BytesKey k) = Inr (hmac cr h k ss)"
| "Sign cr (SigningMethodHMAC h) ss (OtherKey k) = Inl ErrInvalidKeyType"
| "Sign cr (SigningMethodOther a) ss k = sign_other cr a ss k"

fun Verify :: "crypto \<Rightarrow> SigningMethod \<Rightarrow> string \<Rightarrow> string \<Rightarrow> key \<Rightarrow> bool" where
  "Verify cr (SigningMethodHMAC h) ss sig (BytesKey k) = (hmac cr h k ss = sig)"
| "Verify cr (SigningMethodHMAC h) ss sig (OtherKey k) = False"
| "Verify cr (SigningMethodOther a) ss sig k = verify_other cr a ss sig k"

record RegisteredClaims =
  Issuer :: string
  Subject :: string
  Audience :: "string list"
  ExpiresAt :: "time option"
  NotBefore :: "time option"
  IssuedAt :: "time option"
  ID :: string

record 'c Token =
  Method :: SigningMethod
  Header :: "string \<rightharpoonup> string"
  Claims :: 'c
  Signature :: string
  Valid :: bool

datatype 'c token_string = Compact string "string \<rightharpoonup> string" 'c string | Garbage string

text \<open>\<open>NewNumericDate\<close> truncates to \<open>TimePrecision\<close>, one second.\<close>

definition NewNumericDate :: "time \<Rightarrow> time" where
  "NewNumericDate t = t - t mod Second"

definition NewWithClaims :: "SigningMethod \<Rightarrow> 'c \<Rightarrow> 'c Token" where
  "NewWithClaims method claims =
     \<lparr>Method = method, Header = [''typ'' \<mapsto> ''JWT'', ''alg'' \<mapsto> Alg method],
      Claims = claims, Signature = [], Valid = False\<rparr>"

text \<open>
  What a Go string is after \<open>encoding/json\<close> has written it and read it back. The encoder
  goes through the string rune by rune (\<open>utf8.DecodeRuneInString\<close>) and writes U+FFFD for
  every byte that does not start a well-formed UTF-8 sequence; everything else comes back
  as it was. \<open>rune_len s\<close> is the length of the well-formed sequence at the head of \<open>s\<close>,
  0 when there is none.
\<close>

definition byte_in :: "string \<Rightarrow> nat \<Rightarrow> nat \<Rightarrow> nat \<Rightarrow> bool" where
  "byte_in s i lo hi \<longleftrightarrow> i < length s \<and> lo \<le> of_char (s ! i) \<and> (of_char (s ! i) :: nat) \<le> hi"

definition rune_len :: "string \<Rightarrow> nat" where
  "rune_len s =
     (if s = [] then 0
      else
        let x = (of_char (hd s) :: nat); t = tl s in
        if x < 0x80 then 1
        else if 0xC2 \<le> x \<and> x \<le> 0xDF then (if byte_in t 0 0x80 0xBF then 2 else 0)
        else if x = 0xE0
        then (if byte_in t 0 0xA0 0xBF \<and> byte_in t 1 0x80 0xBF then 3 else 0)
        else if x = 0xED
        then (if byte_in t 0 0x80 0x9F \<and> byte_in t 1 0x80 0xBF then 3 else 0)
        else if 0xE1 \<le> x \<and> x \<le> 0xEF
        then (if byte_in t 0 0x80 0xBF \<and> byte_in t 1 0x80 0xBF then 3 else 0)
        else if x = 0xF0
        then (if byte_in t 0 0x90 0xBF \<and> byte_in t 1 0x80 0xBF \<and> byte_in t 2 0x80 0xBF
              then 4 else 0)
        else if 0xF1 \<le> x \<and> x \<le> 0xF3
        then (if byte_in t 0 0x80 0xBF \<and> byte_in t 1 0x80 0xBF \<and> byte_in t 2 0x80 0xBF
              then 4 else 0)
        else if x = 0xF4
        then (if byte_in t 0 0x80 0x8F \<and> byte_in t 1 0x80 0xBF \<and> byte_in t 2 0x80 0xBF
              then 4 else 0)
        else 0)"

function json_string :: "string \<Rightarrow> string" where
  "json_string s =
     (if s = [] then []
      else if rune_len s = 0 then [CHR 0xEF, CHR 0xBF, CHR 0xBD] @ json_string (tl s)
      else take (rune_len s) s @ json_string (drop (rune_len s) s))"
  by pat_completeness auto
termination
  by (relation "measure length") auto

text \<open>\<open>utf8.ValidString\<close>: the string is made of well-formed sequences only.\<close>

function valid_utf8 :: "string \<Rightarrow> bool" where
  "valid_utf8 s =
     (if s = [] then True
      else if rune_len s = 0 then False
      else valid_utf8 (drop (rune_len s) s))"
  by pat_completeness auto
termination
  by (relation "measure length") auto

declare json_string.simps [simp del] valid_utf8.simps [simp del]

text \<open>
  \<open>Token.SignedString\<close>: the signing input is the encoding \<open>enc\<close> of header and claims
  (\<open>Token.SigningString\<close>, the base64url text of their JSON, a parameter); the result is the
  token string made of that text and the signature. Its claims segment decodes to
  \<open>reread\<close> of the claims: what the claims are after the passage through JSON.
\<close>

definition SignedString ::
  "crypto \<Rightarrow> ((string \<rightharpoonup> string) \<Rightarrow> 'c \<Rightarrow> string) \<Rightarrow> ('c \<Rightarrow> 'c) \<Rightarrow> 'c Token \<Rightarrow> key
     \<Rightarrow> error + 'c token_string" where
  "SignedString cr enc reread t k =
     (let sstr = enc (Header t) (Claims t) in
      case Sign cr (Method t) sstr k of
        Inl err \<Rightarrow> Inl err
      | Inr sig \<Rightarrow> Inr (Compact sstr (Header t) (reread (Claims t)) sig))"

fun ParseUnverified :: "'c token_string \<Rightarrow> error + 'c Token" where
  "ParseUnverified (Garbage raw) = Inl ErrTokenMalformed"
| "ParseUnverified (Compact ss hdr c sig) =
     (case hdr ''alg'' of
        None \<Rightarrow> Inl (ErrTokenUnverifiable (Errorf ''signing method (alg) is unspecified''))
      | Some alg \<Rightarrow>
          (case GetSigningMethod alg of
             None \<Rightarrow> Inl (ErrTokenUnverifiable (Errorf ''signing method (alg) is unavailable''))
           | Some m \<Rightarrow> Inr \<lparr>Method = m, Header = hdr, Claims = c, Signature = sig, Valid = False\<rparr>))"

text \<open>
  The validator of the registered claims, with the two options the repository sets
  (\<open>WithIssuer\<close>, \<open>WithAudience\<close>; the empty string when unset) and no leeway. A claim
  that is absent is not checked, unless an expected value makes it required. A list of
  audiences that are all empty is reported as a missing claim, as release 5.2 of the
  library does; later releases report an invalid audience for it. It is a rejection either
  way.
\<close>

record Validator =
  expectedAud :: string
  expectedIss :: string

definition verifyExpiresAt :: "time \<Rightarrow> 'a RegisteredClaims_scheme \<Rightarrow> claim_error list" where
  "verifyExpiresAt now c =
     (case ExpiresAt c of None \<Rightarrow> [] | Some exp \<Rightarrow> if now < exp then [] else [ErrTokenExpired])"

definition verifyNotBefore :: "time \<Rightarrow> 'a RegisteredClaims_scheme \<Rightarrow> claim_error list" where
  "verifyNotBefore now c =
     (case NotBefore c of None \<Rightarrow> [] | Some nbf \<Rightarrow> if \<not> now < nbf then [] else [ErrTokenNotValidYet])"

definition verifyAudience :: "string \<Rightarrow> 'a RegisteredClaims_scheme \<Rightarrow> claim_error list" where
  "verifyAudience cmp c =
     (if Audience c = [] \<or> concat (Audience c) = [] then [ErrTokenRequiredClaimMissing ''aud'']
      else if cmp \<in> set (Audience c) then [] else [ErrTokenInvalidAudience])"

definition verifyIssuer :: "string \<Rightarrow> 'a RegisteredClaims_scheme \<Rightarrow> claim_error list" where
  "verifyIssuer cmp c =
     (if Issuer c = [] then [ErrTokenRequiredClaimMissing ''iss'']
      else if Issuer c = cmp then [] else [ErrTokenInvalidIssuer])"

definition Validate :: "Validator \<Rightarrow> time \<Rightarrow> 'a RegisteredClaims_scheme \<Rightarrow> claim_error list" where
  "Validate v now c =
     verifyExpiresAt now c @ verifyNotBefore now c
     @ (if expectedAud v \<noteq> [] then verifyAudience (expectedAud v) c else [])
     @ (if expectedIss v \<noteq> [] then verifyIssuer (expectedIss v) c else [])"

definition NewValidator :: Validator where
  "NewValidator = \<lparr>expectedAud = [], expectedIss = []\<rparr>"

fun signing_input :: "'c token_string \<Rightarrow> string" where
  "signing_input (Compact ss hdr c sig) = ss"
| "signing_input (Garbage raw) = []"

fun declared_alg :: "'c token_string \<Rightarrow> string option" where
  "declared_alg (Compact ss hdr c sig) = hdr ''alg''"
| "declared_alg (Garbage raw) = None"

fun token_claims :: "'c token_string \<Rightarrow> 'c option" where
  "token_claims (Compact ss hdr c sig) = Some c"
| "token_claims (Garbage raw) = None"

definition ParseWithClaims ::
  "crypto \<Rightarrow> Validator \<Rightarrow> time \<Rightarrow> ('a RegisteredClaims_scheme Token \<Rightarrow> error + key)
     \<Rightarrow> 'a RegisteredClaims_scheme token_string \<Rightarrow> error + 'a RegisteredClaims_scheme Token" where
  "ParseWithClaims cr v now keyFunc tokenString =
     (case ParseUnverified tokenString of
        Inl err \<Rightarrow> Inl err
      | Inr token \<Rightarrow>
          (case keyFunc token of
             Inl err \<Rightarrow> Inl (ErrTokenUnverifiable err)
           | Inr got \<Rightarrow>
               if \<not> Verify cr (Method token) (signing_input tokenString) (Signature token) got
               then Inl ErrTokenSignatureInvalid
               else (case Validate v now (Claims token) of
                       [] \<Rightarrow> Inr (token\<lparr>Valid := True\<rparr>)
                     | e # es \<Rightarrow> Inl (ErrTokenInvalidClaims (e # es)))))"


section \<open>Session tokens (internal/lti/session.go)\<close>

record SessionClaims = RegisteredClaims +
  UserID :: nat
  CanvasID :: string
  CourseID :: string
  Role :: string

record SessionManager =
  secret :: string
  maxAge :: Duration

text \<open>
  \<open>time.Duration(maxAgeSeconds) * time.Second\<close> is an \<open>int64\<close> product and wraps.
\<close>

definition NewSessionManager :: "string \<Rightarrow> int \<Rightarrow> SessionManager" where
  "NewSessionManager secret' maxAgeSeconds =
     \<lparr>secret = secret',
      maxAge = sint (word_of_int maxAgeSeconds * word_of_int Second :: 64 word)\<rparr>"

text \<open>The claims \<open>CreateToken\<close> fills in, and the token it signs with HS256.\<close>

definition CreateToken_claims ::
  "SessionManager \<Rightarrow> time \<Rightarrow> nat \<Rightarrow> string \<Rightarrow> string \<Rightarrow> string \<Rightarrow> SessionClaims" where
  "CreateToken_claims m now userID canvasID courseID role =
     \<lparr>Issuer = [], Subject = [], Audience = [],
      ExpiresAt = Some (NewNumericDate (now + maxAge m)),
      NotBefore = Some (NewNumericDate now),
      IssuedAt = Some (NewNumericDate now),
      ID = [],
      UserID = userID, CanvasID = canvasID, CourseID = courseID, Role = role\<rparr>"

text \<open>
  The session claims after the passage through JSON: the numbers are kept, every string
  is as \<open>json_string\<close> leaves it.
\<close>

definition json_SessionClaims :: "SessionClaims \<Rightarrow> SessionClaims" where
  "json_SessionClaims c =
     c\<lparr>Issuer := json_string (Issuer c), Subject := json_string (Subject c),
       Audience := map json_string (Audience c), ID := json_string (ID c),
       CanvasID := json_string (CanvasID c), CourseID := json_string (CourseID c),
       Role := json_string (Role c)\<rparr>"

definition CreateToken ::
  "crypto \<Rightarrow> ((string \<rightharpoonup> string) \<Rightarrow> SessionClaims \<Rightarrow> string) \<Rightarrow> SessionManager \<Rightarrow> time
     \<Rightarrow> nat \<Rightarrow> string \<Rightarrow> string \<Rightarrow> string \<Rightarrow> error + SessionClaims token_string" where
  "CreateToken cr enc m now userID canvasID courseID role =
     (let claims = CreateToken_claims m now userID canvasID courseID role;
          token = NewWithClaims SigningMethodHS256 claims
      in SignedString cr enc json_SessionClaims token (BytesKey (secret m)))"

text \<open>
  The key function of \<open>SessionManager.ValidateToken\<close>: the type assertion
  \<open>token.Method.(*jwt.SigningMethodHMAC)\<close> holds for HS256, HS384 and HS512 alike.
\<close>

fun session_keyFunc :: "SessionManager \<Rightarrow> SessionClaims Token \<Rightarrow> error + key" where
  "session_keyFunc m token =
     (case Method token of
        SigningMethodHMAC h \<Rightarrow> Inr (BytesKey (secret m))
      | SigningMethodOther a \<Rightarrow> Inl (Errorf (''unexpected signing method: '' @ a)))"

definition SessionManager_ValidateToken ::
  "crypto \<Rightarrow> SessionManager \<Rightarrow> time \<Rightarrow> SessionClaims token_string \<Rightarrow> error + SessionClaims" where
  "SessionManager_ValidateToken cr m now tokenString =
     (case ParseWithClaims cr NewValidator now (session_keyFunc m) tokenString of
        Inl err \<Rightarrow> Inl err
      | Inr token \<Rightarrow>
          if \<not> Valid token then Inl (Errorf ''invalid token'') else Inr (Claims token))"


section \<open>Platforms and their repository (the \<open>lti\<close> package's platform file)\<close>

record Platform =
  ID :: nat
  Issuer :: string
  ClientID :: string
  DeploymentID :: string
  JWKSEndpoint :: string
  AuthEndpoint :: string
  TokenEndpoint :: string
  Name :: string
  CreatedAt :: time
  UpdatedAt :: time
  DeletedAt :: "time option"

record User =
  ID :: nat
  CanvasUserID :: string
  CanvasInstanceURL :: string
  DisplayName :: string
  Email :: string
  CreatedAt :: time
  UpdatedAt :: time
  DeletedAt :: "time option"

text \<open>
  The database is reached through gorm, which is not part of the repository. It is
  modelled by what the struct tags and the repository's tests fix: a table is the list of
  its rows; \<open>ID\<close> is the primary key, filled in by the database (one more than the greatest
  key in the table) when a row is created with \<open>ID = 0\<close>; \<open>Issuer\<close> carries a unique index
  (\<open>uniqueIndex\<close>); a row with \<open>DeletedAt\<close> set is soft-deleted: it stays in the table, and
  in its indexes, but queries and updates pass it over. \<open>First\<close> returns the matching row
  with the least key.
\<close>

record DB =
  platforms :: "Platform list"
  users :: "User list"

definition least_by :: "('r \<Rightarrow> nat) \<Rightarrow> 'r list \<Rightarrow> 'r option" where
  "least_by k rows =
     (case rows of
        [] \<Rightarrow> None
      | r # rs \<Rightarrow> Some (fold (\<lambda>x best. if k x < k best then x else best) rs r))"

definition next_key :: "('r \<Rightarrow> nat) \<Rightarrow> 'r list \<Rightarrow> nat" where
  "next_key k rows = Suc (fold (\<lambda>r m. max (k r) m) rows 0)"

definition platform_First :: "(Platform \<Rightarrow> bool) \<Rightarrow> DB \<Rightarrow> error + Platform" where
  "platform_First cond d =
     (case least_by Platform.ID
             (filter (\<lambda>r. cond r \<and> Platform.DeletedAt r = None) (platforms d)) of
        None \<Rightarrow> Inl ErrRecordNotFound
      | Some r \<Rightarrow> Inr r)"

text \<open>
  The write operations return the error (\<open>None\<close> for \<open>nil\<close>), the struct behind the pointer
  as the call leaves it (gorm fills the zero timestamps in before it runs the statement),
  and the database.
\<close>

definition platform_Create :: "time \<Rightarrow> DB \<Rightarrow> Platform \<Rightarrow> error option \<times> Platform \<times> DB" where
  "platform_Create now d p =
     (let pt = p\<lparr>Platform.CreatedAt := (if Platform.CreatedAt p = zero_Time then now
                                        else Platform.CreatedAt p),
                 Platform.UpdatedAt := (if Platform.UpdatedAt p = zero_Time then now
                                        else Platform.UpdatedAt p)\<rparr>;
          p' = pt\<lparr>Platform.ID := (if Platform.ID p = 0 then next_key Platform.ID (platforms d)
                                   else Platform.ID p)\<rparr>
      in if list_ex (\<lambda>r. Platform.ID r = Platform.ID p') (platforms d)
         then (Some (ErrConstraintFailed ''lti_platforms.id''), pt, d)
         else if list_ex (\<lambda>r. Platform.Issuer r = Platform.Issuer p') (platforms d)
         then (Some (ErrConstraintFailed ''lti_platforms.issuer''), pt, d)
         else (None, p', d\<lparr>platforms := platforms d @ [p']\<rparr>))"

text \<open>
  \<open>Save\<close>: with a zero key it creates; otherwise it updates every column of the live row
  with that key, and when there is no such row it inserts, overwriting on a key conflict.
  In these last two cases the row takes the struct's \<open>CreatedAt\<close>, where gorm fills in or
  keeps the column; \<open>Upsert\<close> reaches neither on a table that satisfies \<open>table_ok\<close>.
\<close>

definition platform_Save :: "time \<Rightarrow> DB \<Rightarrow> Platform \<Rightarrow> error option \<times> Platform \<times> DB" where
  "platform_Save now d p =
     (if Platform.ID p = 0 then platform_Create now d p
      else
        let p' = p\<lparr>Platform.UpdatedAt := now\<rparr>;
            others = filter (\<lambda>r. Platform.ID r \<noteq> Platform.ID p) (platforms d)
        in if list_ex (\<lambda>r. Platform.Issuer r = Platform.Issuer p) others
           then (Some (ErrConstraintFailed ''lti_platforms.issuer''), p', d)
           else if list_ex (\<lambda>r. Platform.ID r = Platform.ID p) (platforms d)
           then (None, p', d\<lparr>platforms :=
                   map (\<lambda>r. if Platform.ID r = Platform.ID p then p' else r) (platforms d)\<rparr>)
           else (None, p', d\<lparr>platforms := platforms d @ [p']\<rparr>))"

definition platform_Delete :: "time \<Rightarrow> DB \<Rightarrow> nat \<Rightarrow> error option \<times> DB" where
  "platform_Delete now d id' =
     (None, d\<lparr>platforms :=
        map (\<lambda>r. if Platform.ID r = id' \<and> Platform.DeletedAt r = None
                  then r\<lparr>Platform.DeletedAt := Some now\<rparr> else r) (platforms d)\<rparr>)"

subsection \<open>PlatformRepository\<close>

definition Create :: "time \<Rightarrow> DB \<Rightarrow> Platform \<Rightarrow> error option \<times> Platform \<times> DB" where
  "Create now d platform = platform_Create now d platform"

definition FindByIssuer :: "DB \<Rightarrow> string \<Rightarrow> error + Platform" where
  "FindByIssuer d issuer = platform_First (\<lambda>r. Platform.Issuer r = issuer) d"

definition FindByID :: "DB \<Rightarrow> nat \<Rightarrow> error + Platform" where
  "FindByID d id' = platform_First (\<lambda>r. Platform.ID r = id') d"

definition FindByClientID :: "DB \<Rightarrow> string \<Rightarrow> error + Platform" where
  "FindByClientID d clientID = platform_First (\<lambda>r. Platform.ClientID r = clientID) d"

definition Update :: "time \<Rightarrow> DB \<Rightarrow> Platform \<Rightarrow> error option \<times> Platform \<times> DB" where
  "Update now d platform = platform_Save now d platform"

definition Delete :: "time \<Rightarrow> DB \<Rightarrow> nat \<Rightarrow> error option \<times> DB" where
  "Delete now d id' = platform_Delete now d id'"

definition List :: "DB \<Rightarrow> Platform list" where
  "List d = filter (\<lambda>r. Platform.DeletedAt r = None) (platforms d)"

definition Upsert :: "time \<Rightarrow> DB \<Rightarrow> Platform \<Rightarrow> error option \<times> Platform \<times> DB" where
  "Upsert now d platform =
     (case FindByIssuer d (Platform.Issuer platform) of
        Inr existing \<Rightarrow>
          Update now d (platform\<lparr>Platform.ID := Platform.ID existing,
                                 Platform.CreatedAt := Platform.CreatedAt existing\<rparr>)
      | Inl err \<Rightarrow> Create now d platform)"

text \<open>
  What the table's constraints keep true: keys are positive and distinct, issuers are
  distinct, over all rows, soft-deleted ones included.
\<close>

definition table_ok :: "DB \<Rightarrow> bool" where
  "table_ok d \<longleftrightarrow>
     distinct (map Platform.ID (platforms d)) \<and> distinct (map Platform.Issuer (platforms d))
     \<and> list_all (\<lambda>r. 0 < Platform.ID r) (platforms d)"

definition rows_of_issuer :: "DB \<Rightarrow> string \<Rightarrow> Platform list" where
  "rows_of_issuer d issuer = filter (\<lambda>r. Platform.Issuer r = issuer) (platforms d)"



section \<open>Identity tokens (internal/lti/jwt.go)\<close>

datatype json =
    JNull
  | JBool bool
  | JNumber int
  | JString string
  | JArray "json list"
  | JObject "(string \<times> json) list"

text \<open>A \<open>map[string]interface{}\<close> field is \<open>None\<close> when the map is \<open>nil\<close>.\<close>

record LTIClaims = RegisteredClaims +
  Name :: string
  Email :: string
  Locale :: string
  MessageType :: string
  Version :: string
  DeploymentID :: string
  TargetLinkURI :: string
  ResourceLink :: "(string \<rightharpoonup> json) option"
  Roles :: "string list"
  Context :: "(string \<rightharpoonup> json) option"
  LaunchPresentation :: "(string \<rightharpoonup> json) option"
  Custom :: "(string \<rightharpoonup> json) option"
  Nonce :: string
  ToolPlatform :: "(string \<rightharpoonup> json) option"

definition GetContextID :: "LTIClaims \<Rightarrow> string" where
  "GetContextID c =
     (case Context c of
        None \<Rightarrow> []
      | Some m \<Rightarrow> (case m ''id'' of Some (JString id') \<Rightarrow> id' | _ \<Rightarrow> []))"

definition GetContextLabel :: "LTIClaims \<Rightarrow> string" where
  "GetContextLabel c =
     (case Context c of
        None \<Rightarrow> []
      | Some m \<Rightarrow> (case m ''label'' of Some (JString label) \<Rightarrow> label | _ \<Rightarrow> []))"

fun range_has :: "string list \<Rightarrow> string \<Rightarrow> bool" where
  "range_has [] role = False"
| "range_has (r # rs) role = (if r = role then True else range_has rs role)"

definition HasRole :: "LTIClaims \<Rightarrow> string \<Rightarrow> bool" where
  "HasRole c role = range_has (Roles c) role"

fun any_role :: "LTIClaims \<Rightarrow> string list \<Rightarrow> bool" where
  "any_role c [] = False"
| "any_role c (role # roles) = (if HasRole c role then True else any_role c roles)"

definition IsInstructor :: "LTIClaims \<Rightarrow> bool" where
  "IsInstructor c =
     any_role c [''http://purl.imsglobal.org/vocab/lis/v2/membership#Instructor'',
                 ''http://purl.imsglobal.org/vocab/lis/v2/institution/person#Instructor'']"

definition IsLearner :: "LTIClaims \<Rightarrow> bool" where
  "IsLearner c =
     any_role c [''http://purl.imsglobal.org/vocab/lis/v2/membership#Learner'',
                 ''http://purl.imsglobal.org/vocab/lis/v2/institution/person#Student'']"

text \<open>
  A \<open>keyfunc.Keyfunc\<close> picks the verification key for a token out of a platform's key set.
  Fetching the key set (\<open>keyfunc.NewDefaultCtx\<close>, over the network, with the ten-second
  timeout) is the parameter \<open>fetch\<close> of the functions below.
\<close>

type_synonym Keyfunc = "LTIClaims Token \<Rightarrow> error + key"

record JWTValidator =
  jwksCache :: "string \<rightharpoonup> Keyfunc"

definition NewJWTValidator :: JWTValidator where
  "NewJWTValidator = \<lparr>jwksCache = Map.empty\<rparr>"

definition getKeyfunc ::
  "(string \<Rightarrow> error + Keyfunc) \<Rightarrow> JWTValidator \<Rightarrow> string \<Rightarrow> (error + Keyfunc) \<times> JWTValidator" where
  "getKeyfunc fetch v jwksURL =
     (case jwksCache v jwksURL of
        Some kf \<Rightarrow> (Inr kf, v)
      | None \<Rightarrow>
          (case fetch jwksURL of
             Inl err \<Rightarrow> (Inl err, v)
           | Inr kf \<Rightarrow> (Inr kf, v\<lparr>jwksCache := (jwksCache v)(jwksURL \<mapsto> kf)\<rparr>)))"

definition JWTValidator_ValidateToken ::
  "crypto \<Rightarrow> (string \<Rightarrow> error + Keyfunc) \<Rightarrow> time \<Rightarrow> JWTValidator
     \<Rightarrow> LTIClaims token_string \<Rightarrow> Platform \<Rightarrow> string \<Rightarrow> (error + LTIClaims) \<times> JWTValidator" where
  "JWTValidator_ValidateToken cr fetch now v tokenString platform expectedNonce =
     (case getKeyfunc fetch v (JWKSEndpoint platform) of
        (Inl err, v') \<Rightarrow> (Inl (Wrap ''failed to get JWKS'' err), v')
      | (Inr kf, v') \<Rightarrow>
          (case ParseWithClaims cr \<lparr>expectedAud = Platform.ClientID platform,
                                     expectedIss = Platform.Issuer platform\<rparr> now kf tokenString of
             Inl err \<Rightarrow> (Inl (Wrap ''failed to parse token'' err), v')
           | Inr token \<Rightarrow>
               let claims = Claims token in
               if \<not> Valid token then (Inl (Errorf ''invalid token claims''), v')
               else if Nonce claims \<noteq> expectedNonce then (Inl (Errorf ''nonce mismatch''), v')
               else if MessageType claims \<noteq> ''LtiResourceLinkRequest''
                       \<and> MessageType claims \<noteq> ''LtiDeepLinkingRequest''
               then (Inl (Errorf (''unsupported message type: '' @ MessageType claims)), v')
               else (Inr claims, v')))"


section \<open>Requests and responses (net/http and gin, as the handlers use them)\<close>

text \<open>
  Of a request the handlers read the query parameters, the posted form, the headers (by
  canonical name), \<open>Host\<close> and whether \<open>TLS\<close> is non-nil. \<open>DefaultQuery\<close> returns the
  query parameter when the key is present, the default otherwise; \<open>PostForm\<close> and
  \<open>Header.Get\<close> return the empty string for an absent key.
\<close>

record Request =
  URLQuery :: "string \<rightharpoonup> string"
  Form :: "string \<rightharpoonup> string"
  Form_id_token :: "LTIClaims token_string option"
  Header :: "string \<rightharpoonup> string"
  Host :: string
  TLS :: bool

definition DefaultQuery :: "Request \<Rightarrow> string \<Rightarrow> string \<Rightarrow> string" where
  "DefaultQuery r k defaultValue = (case URLQuery r k of Some v \<Rightarrow> v | None \<Rightarrow> defaultValue)"

definition PostForm :: "Request \<Rightarrow> string \<Rightarrow> string" where
  "PostForm r k = (case Form r k of Some v \<Rightarrow> v | None \<Rightarrow> [])"

text \<open>
  The posted \<open>id_token\<close> is kept apart from the other form fields, in the representation
  of token strings; the empty string is \<open>Garbage []\<close>.
\<close>

definition PostForm_id_token :: "Request \<Rightarrow> LTIClaims token_string" where
  "PostForm_id_token r = (case Form_id_token r of Some t \<Rightarrow> t | None \<Rightarrow> Garbage [])"

definition Header_Get :: "Request \<Rightarrow> string \<Rightarrow> string" where
  "Header_Get r k = (case Request.Header r k of Some v \<Rightarrow> v | None \<Rightarrow> [])"

record Cookie =
  CookieName :: string
  Value :: "SessionClaims token_string"
  MaxAge :: int
  Path :: string
  Domain :: string
  Secure :: bool
  HttpOnly :: bool

datatype body = NoBody | JSONError string | JSONErrorf string error

record Response =
  Code :: nat
  Body :: body
  Location :: "string option"
  SetCookies :: "Cookie list"

definition StatusFound :: nat where "StatusFound = 302"
definition StatusBadRequest :: nat where "StatusBadRequest = 400"
definition StatusUnauthorized :: nat where "StatusUnauthorized = 401"
definition StatusInternalServerError :: nat where "StatusInternalServerError = 500"

definition JSON :: "nat \<Rightarrow> body \<Rightarrow> Response" where
  "JSON code b = \<lparr>Code = code, Body = b, Location = None, SetCookies = []\<rparr>"

definition Redirect :: "Cookie list \<Rightarrow> nat \<Rightarrow> string \<Rightarrow> Response" where
  "Redirect cookies code location =
     \<lparr>Code = code, Body = NoBody, Location = Some location, SetCookies = cookies\<rparr>"

text \<open>
  \<open>net/url\<close>: a parsed URL, and \<open>url.Values\<close> as the map from a key to its values.
  \<open>url.Parse\<close> refuses, before anything else, a string with an ASCII control byte ahead
  of its fragment; the rest of the parser, the parsing and encoding of query strings and
  \<open>URL.String\<close> are parameters (\<open>urllib\<close>).
\<close>

record URL =
  Scheme :: string
  URLHost :: string
  URLPath :: string
  RawQuery :: string
  Fragment :: string

type_synonym Values = "string \<rightharpoonup> string list"

record urllib =
  url_parse_rest :: "string \<Rightarrow> error + URL"
  url_ParseQuery :: "string \<Rightarrow> Values"
  values_Encode :: "Values \<Rightarrow> string"
  url_String :: "URL \<Rightarrow> string"

definition stringContainsCTLByte :: "string \<Rightarrow> bool" where
  "stringContainsCTLByte s = list_ex (\<lambda>b. (of_char b :: nat) < 32 \<or> (of_char b :: nat) = 127) s"

definition url_Parse :: "urllib \<Rightarrow> string \<Rightarrow> error + URL" where
  "url_Parse lib rawURL =
     (if stringContainsCTLByte (takeWhile (\<lambda>b. b \<noteq> CHR ''#'') rawURL)
      then Inl (Wrap ''parse'' (Errorf ''net/url: invalid control character in URL''))
      else url_parse_rest lib rawURL)"

definition Query :: "urllib \<Rightarrow> URL \<Rightarrow> Values" where
  "Query lib u = url_ParseQuery lib (RawQuery u)"

definition Set :: "Values \<Rightarrow> string \<Rightarrow> string \<Rightarrow> Values" where
  "Set q k v = q(k \<mapsto> [v])"


section \<open>The handlers (internal/lti/handler.go)\<close>

text \<open>
  \<open>GenerateState\<close> and \<open>GenerateNonce\<close> read 32 bytes from \<open>crypto/rand\<close> and encode them
  with \<open>base64.URLEncoding\<close> (the URL-safe alphabet, padded). The bytes \<open>rand.Read\<close> delivered
  are an argument. With the Go release the module asks for (go 1.25) \<open>rand.Read\<close> fills the
  buffer and never returns an error, so the error return of both functions is never taken;
  the handler's branches for it are kept as they are written.
\<close>

definition encodeURL :: string where
  "encodeURL = ''ABCDEFGHIJKLMNOPQRSTUVWXYZabcdefghijklmnopqrstuvwxyz0123456789-_''"

fun EncodeToString :: "nat list \<Rightarrow> string" where
  "EncodeToString (a # b # c # rest) =
     [encodeURL ! (a div 4), encodeURL ! ((a mod 4) * 16 + b div 16),
      encodeURL ! ((b mod 16) * 4 + c div 64), encodeURL ! (c mod 64)] @ EncodeToString rest"
| "EncodeToString [a, b] =
     [encodeURL ! (a div 4), encodeURL ! ((a mod 4) * 16 + b div 16),
      encodeURL ! ((b mod 16) * 4), CHR ''='']"
| "EncodeToString [a] =
     [encodeURL ! (a div 4), encodeURL ! ((a mod 4) * 16), CHR ''='', CHR ''='']"
| "EncodeToString [] = []"

definition GenerateState :: "8 word list \<Rightarrow> error + string" where
  "GenerateState b = Inr (EncodeToString (map unat b))"

definition GenerateNonce :: "8 word list \<Rightarrow> error + string" where
  "GenerateNonce b = Inr (EncodeToString (map unat b))"

record Handler =
  db :: DB
  stateStore :: StateStore
  jwtValidator :: JWTValidator
  sessionManager :: SessionManager
  frontendURL :: string

definition NewHandlerWithConfig :: "DB \<Rightarrow> string \<Rightarrow> int \<Rightarrow> string \<Rightarrow> Handler" where
  "NewHandlerWithConfig d sessionSecret sessionMaxAge frontend =
     \<lparr>db = d, stateStore = NewStateStore, jwtValidator = NewJWTValidator,
      sessionManager = NewSessionManager sessionSecret sessionMaxAge, frontendURL = frontend\<rparr>"

definition NewHandler :: "DB \<Rightarrow> Handler" where
  "NewHandler d = NewHandlerWithConfig d ''change-me-in-production'' 86400 ''/''"

definition getLaunchURL :: "Request \<Rightarrow> string" where
  "getLaunchURL r =
     (let scheme = (if \<not> TLS r then ''http'' else ''https'');
          proto = Header_Get r ''X-Forwarded-Proto'';
          scheme = (if proto \<noteq> [] then proto else scheme);
          fwdHost = Header_Get r ''X-Forwarded-Host'';
          host = (if fwdHost \<noteq> [] then fwdHost else Host r)
      in scheme @ ''://'' @ host @ ''/lti/launch'')"

text \<open>\<open>&StateData{...}\<close>: a new object at the next free address.\<close>

definition new_StateData :: "Heap \<Rightarrow> StateData \<Rightarrow> ptr \<times> Heap" where
  "new_StateData h d = (next_ptr h, h\<lparr>cell := (cell h)(next_ptr h := d), next_ptr := Suc (next_ptr h)\<rparr>)"

text \<open>
  The query parameters \<open>LoginInitiation\<close> sets on the authorization URL, in its order. In
  both handlers one clock reading, \<open>now\<close>, stands for every \<open>time.Now()\<close> of the request.
\<close>

definition login_query ::
  "Values \<Rightarrow> string \<Rightarrow> string \<Rightarrow> string \<Rightarrow> string \<Rightarrow> string \<Rightarrow> string \<Rightarrow> Values" where
  "login_query q0 clientID launchURL loginHint state nonce ltiMessageHint =
     (let q = Set q0 ''scope'' ''openid'';
          q = Set q ''response_type'' ''id_token'';
          q = Set q ''client_id'' clientID;
          q = Set q ''redirect_uri'' launchURL;
          q = Set q ''login_hint'' loginHint;
          q = Set q ''state'' state;
          q = Set q ''response_mode'' ''form_post'';
          q = Set q ''nonce'' nonce;
          q = Set q ''prompt'' ''none''
      in if ltiMessageHint \<noteq> [] then Set q ''lti_message_hint'' ltiMessageHint else q)"

definition LoginInitiation ::
  "urllib \<Rightarrow> 8 word list \<Rightarrow> 8 word list \<Rightarrow> time \<Rightarrow> Request
     \<Rightarrow> Heap \<times> Handler \<Rightarrow> panic + Response \<times> Heap \<times> Handler" where
  "LoginInitiation lib rnd_state rnd_nonce now r hh =
     (let h = fst hh; hdl = snd hh;
          iss = DefaultQuery r ''iss'' (PostForm r ''iss'');
          loginHint = DefaultQuery r ''login_hint'' (PostForm r ''login_hint'');
          targetLinkURI = DefaultQuery r ''target_link_uri'' (PostForm r ''target_link_uri'');
          clientID = DefaultQuery r ''client_id'' (PostForm r ''client_id'');
          ltiMessageHint = DefaultQuery r ''lti_message_hint'' (PostForm r ''lti_message_hint'')
      in
      if iss = [] then Inr (JSON StatusBadRequest (JSONError ''missing iss parameter''), h, hdl)
      else if loginHint = []
      then Inr (JSON StatusBadRequest (JSONError ''missing login_hint parameter''), h, hdl)
      else if targetLinkURI = []
      then Inr (JSON StatusBadRequest (JSONError ''missing target_link_uri parameter''), h, hdl)
      else
        case FindByIssuer (db hdl) iss of
          Inl err \<Rightarrow> Inr (JSON StatusBadRequest (JSONError ''unknown platform issuer''), h, hdl)
        | Inr platform \<Rightarrow>
            if clientID \<noteq> [] \<and> clientID \<noteq> Platform.ClientID platform
            then Inr (JSON StatusBadRequest (JSONError ''client_id mismatch''), h, hdl)
            else
              case GenerateState rnd_state of
                Inl err \<Rightarrow>
                  Inr (JSON StatusInternalServerError (JSONError ''failed to generate state''), h, hdl)
              | Inr state \<Rightarrow>
                  case GenerateNonce rnd_nonce of
                    Inl err \<Rightarrow>
                      Inr (JSON StatusInternalServerError (JSONError ''failed to generate nonce''),
                           h, hdl)
                  | Inr nonce \<Rightarrow>
                      let (p, h1) = new_StateData h
                            \<lparr>StateData.Nonce = nonce, StateData.TargetLinkURI = targetLinkURI,
                             StateData.ClientID = Platform.ClientID platform,
                             StateData.CreatedAt = zero_Time\<rparr>
                      in
                      case Store now state (Some p) (h1, stateStore hdl) of
                        Inl pn \<Rightarrow> Inl pn
                      | Inr (h2, s') \<Rightarrow>
                          let hdl' = hdl\<lparr>stateStore := s'\<rparr> in
                          case url_Parse lib (AuthEndpoint platform) of
                            Inl err \<Rightarrow>
                              Inr (JSON StatusInternalServerError
                                     (JSONError ''invalid auth endpoint''), h2, hdl')
                          | Inr authURL \<Rightarrow>
                              let launchURL = getLaunchURL r;
                                  q = login_query (Query lib authURL) (Platform.ClientID platform)
                                        launchURL loginHint state nonce ltiMessageHint;
                                  authURL' = authURL\<lparr>RawQuery := values_Encode lib q\<rparr>
                              in Inr (Redirect [] StatusFound (url_String lib authURL'), h2, hdl'))"


text \<open>
  The users table, through gorm as above. \<open>User.BeforeCreate\<close> fills the two timestamps in
  when they are zero. The \<open>Visits\<close> association is neither loaded nor written by the
  handlers and is left out of the record.
\<close>

definition user_First :: "(User \<Rightarrow> bool) \<Rightarrow> DB \<Rightarrow> error + User" where
  "user_First cond d =
     (case least_by User.ID (filter (\<lambda>r. cond r \<and> User.DeletedAt r = None) (users d)) of
        None \<Rightarrow> Inl ErrRecordNotFound
      | Some r \<Rightarrow> Inr r)"

definition BeforeCreate :: "time \<Rightarrow> User \<Rightarrow> User" where
  "BeforeCreate now u =
     u\<lparr>User.CreatedAt := (if User.CreatedAt u = zero_Time then now else User.CreatedAt u),
       User.UpdatedAt := (if User.UpdatedAt u = zero_Time then now else User.UpdatedAt u)\<rparr>"

definition user_Create :: "time \<Rightarrow> DB \<Rightarrow> User \<Rightarrow> error option \<times> User \<times> DB" where
  "user_Create now d u =
     (let ut = BeforeCreate now u;
          u' = ut\<lparr>User.ID := (if User.ID u = 0 then next_key User.ID (users d) else User.ID u)\<rparr>
      in if list_ex (\<lambda>r. User.ID r = User.ID u') (users d)
         then (Some (ErrConstraintFailed ''users.id''), ut, d)
         else (None, u', d\<lparr>users := users d @ [u']\<rparr>))"

definition user_Save :: "time \<Rightarrow> DB \<Rightarrow> User \<Rightarrow> error option \<times> User \<times> DB" where
  "user_Save now d u =
     (if User.ID u = 0 then user_Create now d u
      else
        let u' = u\<lparr>User.UpdatedAt := now\<rparr> in
        if list_ex (\<lambda>r. User.ID r = User.ID u) (users d)
        then (None, u', d\<lparr>users := map (\<lambda>r. if User.ID r = User.ID u then u' else r) (users d)\<rparr>)
        else (None, u', d\<lparr>users := users d @ [u']\<rparr>))"

definition findOrCreateUser :: "time \<Rightarrow> DB \<Rightarrow> LTIClaims \<Rightarrow> Platform \<Rightarrow> (error + User) \<times> DB" where
  "findOrCreateUser now d claims platform =
     (case user_First (\<lambda>u. CanvasUserID u = Subject claims
                            \<and> CanvasInstanceURL u = Platform.Issuer platform) d of
        Inl err \<Rightarrow>
          if err = ErrRecordNotFound
          then (case user_Create now d
                       \<lparr>User.ID = 0, CanvasUserID = Subject claims,
                        CanvasInstanceURL = Platform.Issuer platform,
                        DisplayName = LTIClaims.Name claims, User.Email = LTIClaims.Email claims,
                        User.CreatedAt = zero_Time, User.UpdatedAt = zero_Time,
                        User.DeletedAt = None\<rparr> of
                  (Some err', u, d') \<Rightarrow> (Inl err', d')
                | (None, u, d') \<Rightarrow> (Inr u, d'))
          else (Inl err, d)
      | Inr user \<Rightarrow>
          let upd1 = (LTIClaims.Name claims \<noteq> [] \<and> DisplayName user \<noteq> LTIClaims.Name claims);
              user1 = (if upd1 then user\<lparr>DisplayName := LTIClaims.Name claims\<rparr> else user);
              upd2 = (LTIClaims.Email claims \<noteq> [] \<and> User.Email user1 \<noteq> LTIClaims.Email claims);
              user2 = (if upd2 then user1\<lparr>User.Email := LTIClaims.Email claims\<rparr> else user1)
          in if upd1 \<or> upd2
             then (case user_Save now d user2 of (err, u, d') \<Rightarrow> (Inr u, d'))
             else (Inr user2, d))"

text \<open>
  \<open>int(maxAge.Seconds())\<close>: the whole seconds of the duration, rounded towards zero (the
  detour through \<open>float64\<close> is exact for the whole-second durations \<open>NewSessionManager\<close>
  builds from a day or so of seconds; for a product that has wrapped to a duration within a
  nanosecond of a whole second the float can round up, which is not modelled). The cookie's
  value is the session token itself; gin's query-escaping of it leaves the characters of a
  compact token as they are.
\<close>

definition whole_seconds :: "Duration \<Rightarrow> int" where
  "whole_seconds d = (if 0 \<le> d then d div Second else - ((- d) div Second))"

definition Launch ::
  "crypto \<Rightarrow> ((string \<rightharpoonup> string) \<Rightarrow> SessionClaims \<Rightarrow> string) \<Rightarrow> (string \<Rightarrow> error + Keyfunc)
     \<Rightarrow> time \<Rightarrow> Request \<Rightarrow> Heap \<times> Handler \<Rightarrow> Response \<times> Heap \<times> Handler" where
  "Launch cr enc fetch now r hh =
     (let h = fst hh; hdl = snd hh;
          idToken = PostForm_id_token r;
          state = PostForm r ''state''
      in
      if idToken = Garbage [] then (JSON StatusBadRequest (JSONError ''missing id_token''), h, hdl)
      else if state = [] then (JSON StatusBadRequest (JSONError ''missing state''), h, hdl)
      else
        case Get state (stateStore hdl) of
          (None, s') \<Rightarrow>
            (JSON StatusBadRequest (JSONError ''invalid or expired state''),
             h, hdl\<lparr>stateStore := s'\<rparr>)
        | (Some p, s') \<Rightarrow>
            let stateData = cell h p;
                hdl1 = hdl\<lparr>stateStore := s'\<rparr>
            in
            case FindByClientID (db hdl1) (StateData.ClientID stateData) of
              Inl err \<Rightarrow> (JSON StatusBadRequest (JSONError ''platform not found''), h, hdl1)
            | Inr platform \<Rightarrow>
                case JWTValidator_ValidateToken cr fetch now (jwtValidator hdl1) idToken platform
                       (StateData.Nonce stateData) of
                  (Inl err, v') \<Rightarrow>
                    (JSON StatusUnauthorized (JSONErrorf ''token validation failed: '' err),
                     h, hdl1\<lparr>jwtValidator := v'\<rparr>)
                | (Inr claims, v') \<Rightarrow>
                    let hdl2 = hdl1\<lparr>jwtValidator := v'\<rparr> in
                    case findOrCreateUser now (db hdl2) claims platform of
                      (Inl err, d') \<Rightarrow>
                        (JSON StatusInternalServerError (JSONError ''failed to process user''),
                         h, hdl2\<lparr>db := d'\<rparr>)
                    | (Inr user, d') \<Rightarrow>
                        let hdl3 = hdl2\<lparr>db := d'\<rparr>;
                            role = (if IsInstructor claims then ''instructor'' else ''learner'')
                        in
                        case CreateToken cr enc (sessionManager hdl3) now (User.ID user)
                               (Subject claims) (GetContextID claims) role of
                          Inl err \<Rightarrow>
                            (JSON StatusInternalServerError
                               (JSONError ''failed to create session''), h, hdl3)
                        | Inr sessionToken \<Rightarrow>
                            let cookie = \<lparr>CookieName = ''session'', Value = sessionToken,
                                          MaxAge = whole_seconds (maxAge (sessionManager hdl3)),
                                          Path = ''/'', Domain = [],
                                          Secure = TLS r, HttpOnly = True\<rparr>;
                                redirectURL =
                                  (if StateData.TargetLinkURI stateData \<noteq> []
                                   then StateData.TargetLinkURI stateData else frontendURL hdl3)
                            in (Redirect [cookie] StatusFound redirectURL, h, hdl3))"


text \<open>
  The validations of a launch, taken by themselves in the handler's order: what fails
  first, or else the claims, the platform and the state entry they yield.
\<close>

datatype launch_failure =
    MissingIDToken
  | MissingState
  | UnknownState
  | PlatformNotFound error
  | TokenValidationFailed error

definition launch_validation ::
  "crypto \<Rightarrow> (string \<Rightarrow> error + Keyfunc) \<Rightarrow> time \<Rightarrow> Request \<Rightarrow> Heap \<times> Handler
     \<Rightarrow> launch_failure + LTIClaims \<times> Platform \<times> StateData" where
  "launch_validation cr fetch now r hh =
     (if PostForm_id_token r = Garbage [] then Inl MissingIDToken
      else if PostForm r ''state'' = [] then Inl MissingState
      else
        case states (stateStore (snd hh)) (PostForm r ''state'') of
          None \<Rightarrow> Inl UnknownState
        | Some p \<Rightarrow>
            (case FindByClientID (db (snd hh)) (StateData.ClientID (cell (fst hh) p)) of
               Inl err \<Rightarrow> Inl (PlatformNotFound err)
             | Inr platform \<Rightarrow>
                 (case fst (JWTValidator_ValidateToken cr fetch now (jwtValidator (snd hh))
                              (PostForm_id_token r) platform (StateData.Nonce (cell (fst hh) p))) of
                    Inl err \<Rightarrow> Inl (TokenValidationFailed err)
                  | Inr claims \<Rightarrow> Inr (claims, platform, cell (fst hh) p))))"


section \<open>Example data\<close>

definition ex_crypto :: crypto where
  "ex_crypto = \<lparr>hash = (\<lambda>h msg. rev msg),
                 sign_other = (\<lambda>a ss k. Inr (''signed:'' @ ss)),
                 verify_other = (\<lambda>a ss sig k. sig = ''signed:'' @ ss)\<rparr>"

definition ex_enc :: "(string \<rightharpoonup> string) \<Rightarrow> SessionClaims \<Rightarrow> string" where
  "ex_enc hdr c = ''header.'' @ CanvasID c"

definition ex_manager :: SessionManager where
  "ex_manager = NewSessionManager ''test-secret'' 3600"

definition ex_session_claims :: SessionClaims where
  "ex_session_claims =
     \<lparr>RegisteredClaims.Issuer = [], Subject = [], Audience = [], ExpiresAt = Some (4600 * Second),
      NotBefore = Some (1000 * Second), IssuedAt = Some (1000 * Second), RegisteredClaims.ID = [],
      UserID = 123, CanvasID = ''canvas-user-1'', CourseID = ''course-456'', Role = ''instructor''\<rparr>"

definition ex_session_token :: "SessionClaims token_string" where
  "ex_session_token =
     Compact ''header.canvas-user-1'' [''typ'' \<mapsto> ''JWT'', ''alg'' \<mapsto> ''HS256'']
       ex_session_claims (hmac ex_crypto SHA256 ''test-secret'' ''header.canvas-user-1'')"

definition ex_rs256_token :: "SessionClaims token_string" where
  "ex_rs256_token =
     Compact ''header.canvas-user-1'' [''typ'' \<mapsto> ''JWT'', ''alg'' \<mapsto> ''RS256'']
       ex_session_claims ''signed:header.canvas-user-1''"


definition ex_platform :: Platform where
  "ex_platform =
     \<lparr>Platform.ID = 1, Platform.Issuer = ''https://canvas.example.com'',
      Platform.ClientID = ''client-123'', Platform.DeploymentID = ''deploy-456'',
      JWKSEndpoint = ''https://canvas.example.com/.well-known/jwks'',
      AuthEndpoint = ''https://canvas.example.com/api/lti/authorize'',
      TokenEndpoint = ''https://canvas.example.com/login/oauth2/token'',
      Platform.Name = ''Example Canvas'', Platform.CreatedAt = 0, Platform.UpdatedAt = 0,
      Platform.DeletedAt = None\<rparr>"

definition ex_lti_claims :: LTIClaims where
  "ex_lti_claims =
     \<lparr>RegisteredClaims.Issuer = ''https://canvas.example.com'', Subject = ''user123'',
      Audience = [''client-123''], ExpiresAt = Some (4600 * Second), NotBefore = None,
      IssuedAt = Some (1000 * Second), RegisteredClaims.ID = [],
      LTIClaims.Name = ''Ada'', LTIClaims.Email = ''ada@example.com'', Locale = [],
      MessageType = ''LtiResourceLinkRequest'', Version = ''1.3.0'',
      LTIClaims.DeploymentID = ''deploy-456'', LTIClaims.TargetLinkURI = ''https://app.com/launch'',
      ResourceLink = None,
      Roles = [''http://purl.imsglobal.org/vocab/lis/v2/membership#Instructor''],
      Context = Some [''id'' \<mapsto> JString ''course-456''], LaunchPresentation = None,
      Custom = None, LTIClaims.Nonce = ''nonce-1'', ToolPlatform = None\<rparr>"

definition ex_id_token :: "LTIClaims token_string" where
  "ex_id_token =
     Compact ''header.payload'' [''typ'' \<mapsto> ''JWT'', ''alg'' \<mapsto> ''RS256'', ''kid'' \<mapsto> ''k1'']
       ex_lti_claims ''signed:header.payload''"

definition ex_fetch :: "string \<Rightarrow> error + Keyfunc" where
  "ex_fetch jwksURL =
     (if jwksURL = ''https://canvas.example.com/.well-known/jwks''
      then Inr (\<lambda>token. Inr (OtherKey ''platform-public-key''))
      else Inl (Errorf ''failed to fetch JWKS''))"


definition ex_db :: DB where
  "ex_db = \<lparr>platforms = [ex_platform], users = []\<rparr>"

definition ex_update :: Platform where
  "ex_update = ex_platform\<lparr>Platform.ID := 0, Platform.ClientID := ''client-456'',
                            Platform.Name := ''Updated'', Platform.CreatedAt := zero_Time,
                            Platform.UpdatedAt := zero_Time\<rparr>"

definition ex_other :: Platform where
  "ex_other = ex_update\<lparr>Platform.Issuer := ''https://moodle.example.org''\<rparr>"

definition ex_clash :: Platform where
  "ex_clash = ex_other\<lparr>Platform.ID := 1\<rparr>"


definition ex_handler :: Handler where
  "ex_handler = (NewHandler ex_db)\<lparr>stateStore := ex_store\<rparr>"

definition ex_launch :: Request where
  "ex_launch =
     \<lparr>URLQuery = Map.empty, Form = [''state'' \<mapsto> ''st''], Form_id_token = Some ex_id_token,
      Request.Header = [''X-Forwarded-Proto'' \<mapsto> ''https''], Host = ''app.com'', TLS = False\<rparr>"

definition ex_bad_token :: "LTIClaims token_string" where
  "ex_bad_token =
     Compact ''header.payload'' [''typ'' \<mapsto> ''JWT'', ''alg'' \<mapsto> ''RS256'', ''kid'' \<mapsto> ''k1'']
       (ex_lti_claims\<lparr>LTIClaims.Nonce := ''nonce-2''\<rparr>) ''signed:header.payload''"

definition ex_bad_launch :: Request where
  "ex_bad_launch = ex_launch\<lparr>Form_id_token := Some ex_bad_token\<rparr>"


definition ex_urllib :: urllib where
  "ex_urllib =
     \<lparr>url_parse_rest = (\<lambda>raw. Inr \<lparr>Scheme = [], URLHost = [], URLPath = raw, RawQuery = [],
                                     Fragment = []\<rparr>),
      url_ParseQuery = (\<lambda>raw. Map.empty),
      values_Encode = (\<lambda>q. concat (map (\<lambda>k. case q k of Some (v # vs) \<Rightarrow> k @ ''='' @ v @ ''&'' | _ \<Rightarrow> [])
                                [''client_id'', ''nonce'', ''state''])),
      url_String = (\<lambda>u. URLPath u @ ''?'' @ RawQuery u)\<rparr>"

definition ex_login :: Request where
  "ex_login =
     \<lparr>URLQuery = [''iss'' \<mapsto> ''https://canvas.example.com'', ''login_hint'' \<mapsto> ''user123'',
                  ''target_link_uri'' \<mapsto> ''https://app.com/launch''],
      Form = Map.empty, Form_id_token = None, Request.Header = Map.empty,
      Host = ''localhost:8080'', TLS = False\<rparr>"

definition ex_bytes1 :: "8 word list" where
  "ex_bytes1 = [1, 2, 3, 4, 5, 6, 7, 8, 9, 10, 11, 12, 13, 14, 15, 16,
                17, 18, 19, 20, 21, 22, 23, 24, 25, 26, 27, 28, 29, 30, 31, 32]"

definition ex_bytes2 :: "8 word list" where
  "ex_bytes2 = [255, 254, 253, 252, 251, 250, 249, 248, 247, 246, 245, 244, 243, 242, 241, 240,
                239, 238, 237, 236, 235, 234, 233, 232, 231, 230, 229, 228, 227, 226, 225, 224]"

definition ex_platform_ctl :: Platform where
  "ex_platform_ctl =
     ex_platform\<lparr>AuthEndpoint := ''https://canvas.example.com/api/lti/authorize'' @ [CHR 0x0A]\<rparr>"

definition ex_db_ctl :: DB where
  "ex_db_ctl = \<lparr>platforms = [ex_platform_ctl], users = []\<rparr>"


section \<open>Properties of the state store\<close>

lemma step_absent:
  assumes "\<not> stores_state state c" and "step c (h, s) = Inr (h', s')" and "states s state = None"
  shows "states s' state = None"
proof (cases c)
  case (Pair now k)
  show ?thesis
  proof (cases k)
    case (CallStore state' data)
    with Pair assms show ?thesis
      by (cases data) (auto simp: stores_state_def)
  next
    case (CallGet state')
    with Pair assms show ?thesis
      by (auto simp: Get_def split: option.splits)
  next
    case (CallPeek state')
    with Pair assms show ?thesis by auto
  next
    case Tick
    with Pair assms show ?thesis
      by (auto simp: cleanup_tick_def)
  qed
qed

lemma run_absent:
  "\<forall>c \<in> set cs. \<not> stores_state state c \<Longrightarrow> run cs (h, s) = Inr (h', s') \<Longrightarrow>
   states s state = None \<Longrightarrow> states s' state = None"
proof (induction cs arbitrary: h s)
  case Nil
  then show ?case by simp
next
  case (Cons c cs)
  from Cons.prems(2) obtain h1 s1 where st: "step c (h, s) = Inr (h1, s1)"
    and rest: "run cs (h1, s1) = Inr (h', s')"
    by (auto split: sum.splits)
  from Cons.prems(1) have "\<not> stores_state state c" by simp
  then have "states s1 state = None"
    using st Cons.prems(3) by (rule step_absent)
  with Cons.IH [of h1 s1] Cons.prems(1) rest show ?case by simp
qed

lemma Get_absent: "states s state = None \<Longrightarrow> fst (Get state s) = None"
  by (simp add: Get_def)

text \<open>
  C1. A state that is in the store is returned by \<open>Get\<close> together with the removal of its
  entry; after that, whatever calls and cleanup ticks follow, as long as none of them stores
  the state again, \<open>Get\<close> on it finds nothing. So two calls on one state never both succeed.
\<close>

theorem Get_consumes_once:
  assumes "states s state = Some p"
    and "\<forall>c \<in> set cs. \<not> stores_state state c"
    and "run cs (h, snd (Get state s)) = Inr (h', s')"
  shows "fst (Get state s) = Some p \<and> states (snd (Get state s)) state = None
    \<and> fst (Get state (snd (Get state s))) = None \<and> fst (Get state s') = None"
proof -
  from assms(1) have got: "fst (Get state s) = Some p"
    and gone: "states (snd (Get state s)) state = None"
    by (simp_all add: Get_def)
  have "states s' state = None"
    using assms(2,3) gone by (rule run_absent)
  with got gone show ?thesis
    by (simp add: Get_absent)
qed

theorem Get_consumes_once_witness:
  "states ex_store ''st'' = Some 0 \<and> list_all (\<lambda>c. \<not> stores_state ''st'' c) ex_calls
   \<and> (\<exists>h' s'. run ex_calls (ex_heap, snd (Get ''st'' ex_store)) = Inr (h', s')
         \<and> fst (Get ''st'' s') = None)
   \<and> fst (Get ''st'' ex_store) = Some 0"
proof -
  have a: "states ex_store ''st'' = Some 0"
    by (simp add: ex_store_def)
  have b: "\<forall>c \<in> set ex_calls. \<not> stores_state ''st'' c"
    by (simp add: ex_calls_def stores_state_def)
  obtain h' s' where r: "run ex_calls (ex_heap, snd (Get ''st'' ex_store)) = Inr (h', s')"
    by (simp add: ex_calls_def)
  from Get_consumes_once [OF a b r] a b r show ?thesis
    by (auto simp: list_all_iff)
qed

text \<open>
  C3, as stated, fails: \<open>Get\<close> never looks at \<open>CreatedAt\<close>. An entry stored at reading 0 and
  never consumed is older than ten minutes at reading eleven minutes, and \<open>Get\<close> still
  returns it when no cleanup tick has run in between.
\<close>

theorem stale_entry_served_counterexample:
  "(case Store 0 ''s'' (Some 7) (empty_Heap, NewStateStore) of
      Inl e \<Rightarrow> False
    | Inr (h, s) \<Rightarrow> expired (11 * Minute) (cell h 7) \<and> fst (Get ''s'' s) = Some 7)"
  by (simp add: expired_def Sub_def Minute_def Second_def minDuration_def maxDuration_def
      Get_def NewStateStore_def)

text \<open>
  C3, amended. Expiry is the work of the cleanup sweep alone. Before the sweep \<open>Get\<close> returns
  an entry whatever its age; once a sweep has run at a reading more than ten minutes after
  the entry's \<open>CreatedAt\<close>, the entry is gone, and \<open>Get\<close> on its state finds nothing, then and
  after any further calls and ticks that do not store the state again.
\<close>

theorem swept_entry_unreachable:
  assumes "states s state = Some p"
    and "expired now (cell h p)"
    and "\<forall>c \<in> set cs. \<not> stores_state state c"
    and "run cs (h, cleanup_tick now h s) = Inr (h', s')"
  shows "fst (Get state s) = Some p \<and> fst (Get state (cleanup_tick now h s)) = None
    \<and> fst (Get state s') = None"
proof -
  from assms(1,2) have gone: "states (cleanup_tick now h s) state = None"
    by (simp add: cleanup_tick_def)
  have "states s' state = None"
    using assms(3,4) gone by (rule run_absent)
  with gone assms(1) show ?thesis
    by (simp add: Get_def)
qed

theorem swept_entry_unreachable_witness:
  "states ex_store ''st'' = Some 0 \<and> expired (11 * Minute) (cell ex_heap 0)
   \<and> list_all (\<lambda>c. \<not> stores_state ''st'' c) ex_calls
   \<and> (\<exists>h' s'. run ex_calls (ex_heap, cleanup_tick (11 * Minute) ex_heap ex_store) = Inr (h', s')
         \<and> fst (Get ''st'' s') = None)
   \<and> fst (Get ''st'' (cleanup_tick (11 * Minute) ex_heap ex_store)) = None"
proof -
  have a: "states ex_store ''st'' = Some 0"
    by (simp add: ex_store_def)
  have b: "expired (11 * Minute) (cell ex_heap 0)"
    by (simp add: expired_def Sub_def Minute_def Second_def minDuration_def maxDuration_def
        ex_heap_def)
  have c: "\<forall>c \<in> set ex_calls. \<not> stores_state ''st'' c"
    by (simp add: ex_calls_def stores_state_def)
  obtain h' s' where r:
    "run ex_calls (ex_heap, cleanup_tick (11 * Minute) ex_heap ex_store) = Inr (h', s')"
    by (simp add: ex_calls_def)
  from swept_entry_unreachable [OF a b c r] a b c r show ?thesis
    by (auto simp: list_all_iff)
qed

lemma step_keeps_object:
  assumes "\<not> stores_object p c" and "step c (h, s) = Inr (h', s')"
  shows "cell h' p = cell h p"
proof (cases c)
  case (Pair now k)
  with assms show ?thesis
  proof (cases k)
    case (CallStore state data)
    with Pair assms show ?thesis
      by (cases data) (auto simp: stores_object_def)
  qed auto
qed

lemma run_keeps_object:
  "\<forall>c \<in> set cs. \<not> stores_object p c \<Longrightarrow> run cs (h, s) = Inr (h', s') \<Longrightarrow> cell h' p = cell h p"
proof (induction cs arbitrary: h s)
  case Nil
  then show ?case by simp
next
  case (Cons c cs)
  from Cons.prems(2) obtain h1 s1 where st: "step c (h, s) = Inr (h1, s1)"
    and rest: "run cs (h1, s1) = Inr (h', s')"
    by (auto split: sum.splits)
  from Cons.prems(1) have "\<not> stores_object p c" by simp
  then have "cell h1 p = cell h p"
    using st by (rule step_keeps_object)
  with Cons.IH [of h1 s1] Cons.prems(1) rest show ?case by simp
qed

text \<open>
  C10, as stated, fails in its consequence. \<open>Store\<close> stamps the object it is handed, not a
  copy, so an object stored under a second state is stamped again: the entry inserted
  under \<open>a\<close> at reading 1 carries \<open>CreatedAt = 2\<close> after the same object has been stored
  under \<open>b\<close> at reading 2, which is not its insertion time.
\<close>

theorem shared_object_restamped_counterexample:
  "map_sum id (\<lambda>hs. entry_CreatedAt hs ''a'')
     (run [(1, CallStore ''a'' (Some 0)), (2, CallStore ''b'' (Some 0))] (empty_Heap, NewStateStore))
   = Inr (Some 2)"
  by (simp add: entry_CreatedAt_def NewStateStore_def)

text \<open>
  C10, amended. Every \<open>Store\<close> call on a non-nil object puts that object under the state
  with \<open>CreatedAt\<close> set to the reading of the call, whatever \<open>CreatedAt\<close> the caller had
  written into it, so no entry is inserted backdated; and the stamp stays equal to that
  insertion time through all later calls and ticks as long as the same object is not handed
  to \<open>Store\<close> again.
\<close>

theorem Store_stamps_now:
  assumes "Store now state (Some p) (h, s) = Inr (h', s')"
    and "\<forall>c \<in> set cs. \<not> stores_object p c"
    and "run cs (h', s') = Inr (h'', s'')"
  shows "states s' state = Some p \<and> cell h' p = (cell h p)\<lparr>StateData.CreatedAt := now\<rparr>
    \<and> Store now state (Some p) (h\<lparr>cell := (cell h)(p := (cell h p)\<lparr>StateData.CreatedAt := t\<rparr>)\<rparr>, s) = Inr (h', s')
    \<and> StateData.CreatedAt (cell h'' p) = now"
proof -
  from assms(1) have h': "h' = h\<lparr>cell := (cell h)(p := (cell h p)\<lparr>StateData.CreatedAt := now\<rparr>)\<rparr>"
    and s': "s' = s\<lparr>states := (states s)(state \<mapsto> p)\<rparr>"
    by simp_all
  have "cell h'' p = cell h' p"
    using assms(2,3) by (rule run_keeps_object)
  with h' s' show ?thesis
    by simp
qed

theorem Store_stamps_now_witness:
  "(\<exists>h' s' h'' s''. Store 5 ''st'' (Some 3) (empty_Heap, NewStateStore) = Inr (h', s')
      \<and> list_all (\<lambda>c. \<not> stores_object 3 c) ex_calls
      \<and> run ex_calls (h', s') = Inr (h'', s'')
      \<and> states s' ''st'' = Some 3 \<and> StateData.CreatedAt (cell h' 3) = 5 \<and> StateData.CreatedAt (cell h'' 3) = 5
      \<and> Store 5 ''st'' (Some 3)
           (empty_Heap\<lparr>cell := (cell empty_Heap)(3 := (cell empty_Heap 3)\<lparr>StateData.CreatedAt := -100\<rparr>)\<rparr>,
            NewStateStore) = Inr (h', s'))"
proof -
  obtain h' s' where a: "Store 5 ''st'' (Some 3) (empty_Heap, NewStateStore) = Inr (h', s')"
    by simp
  have b: "\<forall>c \<in> set ex_calls. \<not> stores_object 3 c"
    by (simp add: ex_calls_def stores_object_def)
  obtain h'' s'' where r: "run ex_calls (h', s') = Inr (h'', s'')"
    using a by (auto simp: ex_calls_def)
  from Store_stamps_now [OF a b r, of "-100"] a b r show ?thesis
    by (intro exI [of _ h'] exI [of _ s'] exI [of _ h''] exI [of _ s'']) (simp add: list_all_iff)
qed

section \<open>Properties of the session tokens and of token validation\<close>

lemma NewNumericDate_le: "NewNumericDate t \<le> t"
  by (simp add: NewNumericDate_def Second_def)

lemma created:
  "CreateToken cr enc m now u e c r =
     Inr (Compact (enc [''typ'' \<mapsto> ''JWT'', ''alg'' \<mapsto> ''HS256''] (CreateToken_claims m now u e c r))
            [''typ'' \<mapsto> ''JWT'', ''alg'' \<mapsto> ''HS256'']
            (json_SessionClaims (CreateToken_claims m now u e c r))
            (hmac cr SHA256 (secret m)
               (enc [''typ'' \<mapsto> ''JWT'', ''alg'' \<mapsto> ''HS256''] (CreateToken_claims m now u e c r))))"
  by (simp add: CreateToken_def SignedString_def NewWithClaims_def SigningMethodHS256_def Let_def)

lemma json_string_Nil: "json_string [] = []"
  by (simp add: json_string.simps)

lemma json_string_valid: "valid_utf8 s \<Longrightarrow> json_string s = s"
proof (induction s rule: valid_utf8.induct)
  case (1 s)
  show ?case
  proof (cases "s = []")
    case True
    then show ?thesis by (simp add: json_string_Nil)
  next
    case False
    with "1.prems" have n: "rune_len s \<noteq> 0" and v: "valid_utf8 (drop (rune_len s) s)"
      by (auto simp: valid_utf8.simps [of s] split: if_splits)
    from "1.IH" [OF False n v] have "json_string (drop (rune_len s) s) = drop (rune_len s) s" .
    with False n show ?thesis
      by (simp add: json_string.simps [of s])
  qed
qed

text \<open>
  Zero bytes at the end of a key that fits the block change nothing: the padded keys are
  the same, whatever the hash function.
\<close>

lemma hmac_key_zero_padded:
  "length k + n \<le> BlockSize h \<Longrightarrow> hmac_key cr h (k @ replicate n (CHR 0x00)) = hmac_key cr h k"
  by (simp add: hmac_key_def Let_def replicate_add [symmetric] del: replicate_add)

lemma hmac_zero_padded:
  "length k + n \<le> BlockSize h \<Longrightarrow> hmac cr h (k @ replicate n (CHR 0x00)) msg = hmac cr h k msg"
  by (simp add: hmac_def hmac_key_zero_padded)

text \<open>
  Over an injective hash function the MAC determines the padded key: the xor with a
  constant byte is injective, and so is the hash.
\<close>

lemma neq_cancel: "((p \<noteq> q) = (r \<noteq> q)) = (p = (r :: bool))"
  by auto

lemma xor_byte_inj_aux:
  "xor_byte w a = xor_byte w b \<Longrightarrow> char_of (of_char a :: nat) = char_of (of_char b :: nat)"
  unfolding xor_byte_def char_of_def
  by (simp only: char.inject bit_xor_iff even_xor_iff neq_cancel)

lemma xor_byte_inj: "xor_byte w a = xor_byte w b \<Longrightarrow> a = b"
  using xor_byte_inj_aux [of w a b] by (simp only: char_of_char)

lemma map_xor_byte_inj: "map (xor_byte w) xs = map (xor_byte w) ys \<Longrightarrow> xs = ys"
  by (rule map_injective) (auto simp: inj_on_def dest: xor_byte_inj)

lemma hmac_key_length: "length k \<le> BlockSize h \<Longrightarrow> length (hmac_key cr h k) = BlockSize h"
  by (simp add: hmac_key_def)

lemma hmac_inj:
  assumes "inj (hash cr h)"
    and "length k1 \<le> BlockSize h" and "length k2 \<le> BlockSize h"
    and "hmac cr h k1 msg1 = hmac cr h k2 msg2"
  shows "hmac_key cr h k1 = hmac_key cr h k2"
proof -
  from assms(1,4) have "map (xor_byte 0x5c) (hmac_key cr h k1) @ hash cr h (map (xor_byte 0x36) (hmac_key cr h k1) @ msg1)
      = map (xor_byte 0x5c) (hmac_key cr h k2) @ hash cr h (map (xor_byte 0x36) (hmac_key cr h k2) @ msg2)"
    by (simp add: hmac_def Let_def inj_eq)
  moreover have "length (map (xor_byte 0x5c) (hmac_key cr h k1)) = length (map (xor_byte 0x5c) (hmac_key cr h k2))"
    using assms(2,3) by (simp add: hmac_key_length)
  ultimately have "map (xor_byte 0x5c) (hmac_key cr h k1) = map (xor_byte 0x5c) (hmac_key cr h k2)"
    by (metis append_eq_append_conv)
  then show ?thesis
    by (rule map_xor_byte_inj)
qed

text \<open>
  C5, as stated, fails in both halves. A manager with a different secret accepts the token
  when its secret is the signer's followed by a zero byte, since HMAC fills every short key
  up with zero bytes: the token made under \<open>k\<close> validates under \<open>k\<close> followed by \<open>0x00\<close>. And
  the claims that come back are not always the ones given: \<open>encoding/json\<close> writes U+FFFD
  for a byte that is not UTF-8, so the Canvas id \<open>0xFF\<close> comes back as \<open>0xEF 0xBF 0xBD\<close>.
\<close>

theorem session_token_padded_secret_counterexample:
  "secret (NewSessionManager ''k'' 3600) \<noteq> secret (NewSessionManager (''k'' @ [CHR 0x00]) 3600)
   \<and> map_sum id
       (\<lambda>tok. map_sum id (\<lambda>cl. (UserID cl, CanvasID cl, CourseID cl, Role cl))
          (SessionManager_ValidateToken ex_crypto (NewSessionManager (''k'' @ [CHR 0x00]) 3600)
             (1010 * Second) tok))
       (CreateToken ex_crypto ex_enc (NewSessionManager ''k'' 3600) (1000 * Second + 5) 123
          ''canvas-user-1'' ''course-456'' ''instructor'')
     = Inr (Inr (123, ''canvas-user-1'', ''course-456'', ''instructor''))
   \<and> map_sum id
       (\<lambda>tok. map_sum id CanvasID
          (SessionManager_ValidateToken ex_crypto (NewSessionManager ''k'' 3600) (1010 * Second) tok))
       (CreateToken ex_crypto ex_enc (NewSessionManager ''k'' 3600) (1000 * Second + 5) 123
          [CHR 0xFF] ''course-456'' ''instructor'')
     = Inr (Inr [CHR 0xEF, CHR 0xBF, CHR 0xBD])"
proof -
  have k: "hmac ex_crypto SHA256 (''k'' @ [CHR 0x00]) ss = hmac ex_crypto SHA256 ''k'' ss" for ss
    using hmac_zero_padded [of "''k''" 1 SHA256 ex_crypto ss] by simp
  have j: "json_string ''canvas-user-1'' = ''canvas-user-1''
      \<and> json_string ''course-456'' = ''course-456'' \<and> json_string ''instructor'' = ''instructor''"
    by (intro conjI json_string_valid) code_simp+
  have f: "json_string [CHR 0xFF] = [CHR 0xEF, CHR 0xBF, CHR 0xBD]"
    by (simp add: json_string.simps rune_len_def)
  have t: "\<not> (1010 * Second :: int) < NewNumericDate (1000 * Second + 5)
      \<and> (1010 * Second :: int) < NewNumericDate (1000 * Second + 5 + 3600 * Second)"
    by (simp add: NewNumericDate_def Second_def)
  have m: "maxAge (NewSessionManager s 3600) = 3600 * Second" for s
    by (simp add: NewSessionManager_def Second_def)
  show ?thesis
    unfolding created
    using k j f t
    by (simp add: SessionManager_ValidateToken_def ParseWithClaims_def GetSigningMethod_def
        Validate_def verifyExpiresAt_def verifyNotBefore_def NewValidator_def
        CreateToken_claims_def json_SessionClaims_def m)
      (simp add: NewSessionManager_def)
qed

text \<open>
  C5, amended. \<open>CreateToken\<close> always returns a token. The manager that made it accepts it at
  every reading from its creation up to its expiry, and when the Canvas id, the course id
  and the role are valid UTF-8 the claims carry exactly \<open>u\<close>, \<open>e\<close>, \<open>c\<close> and \<open>r\<close>. A manager
  with another secret rejects the token, at any reading, when the HMAC of the signing input
  under its secret differs from the token's signature. Over an injective hash function
  (the ideal a collision-resistant hash stands for) that is the case whenever the two
  secrets, neither longer than the block of SHA-256, differ once they are filled up to the
  block with zero bytes. The other manager gives the verdict of the signing manager when
  its secret is the signer's followed by zero bytes, within the block. HMAC is computed as
  \<open>crypto/hmac\<close> does, over a hash function that is a parameter.
\<close>

theorem session_token_round_trip:
  "\<exists>tok. CreateToken cr enc m now u e c r = Inr tok
     \<and> (now \<le> now' \<and> now' < NewNumericDate (now + maxAge m) \<longrightarrow>
          (\<exists>cl. SessionManager_ValidateToken cr m now' tok = Inr cl
             \<and> UserID cl = u \<and> CanvasID cl = json_string e \<and> CourseID cl = json_string c
             \<and> Role cl = json_string r
             \<and> (valid_utf8 e \<and> valid_utf8 c \<and> valid_utf8 r \<longrightarrow>
                  CanvasID cl = e \<and> CourseID cl = c \<and> Role cl = r)))
     \<and> (hmac cr SHA256 (secret m2) (signing_input tok) \<noteq> hmac cr SHA256 (secret m) (signing_input tok) \<longrightarrow>
          (\<exists>err. SessionManager_ValidateToken cr m2 now'' tok = Inl err))
     \<and> (inj (hash cr SHA256) \<and> length (secret m) \<le> BlockSize SHA256
          \<and> length (secret m2) \<le> BlockSize SHA256
          \<and> hmac_key cr SHA256 (secret m2) \<noteq> hmac_key cr SHA256 (secret m) \<longrightarrow>
          (\<exists>err. SessionManager_ValidateToken cr m2 now'' tok = Inl err))
     \<and> (secret m2 = secret m @ replicate n (CHR 0x00) \<and> length (secret m2) \<le> BlockSize SHA256 \<longrightarrow>
          SessionManager_ValidateToken cr m2 now'' tok = SessionManager_ValidateToken cr m now'' tok)"
proof -
  have nbf: "now \<le> now' \<Longrightarrow> \<not> now' < NewNumericDate now"
    using NewNumericDate_le [of now] by simp
  have pad: "hmac cr SHA256 (secret m2) ss = hmac cr SHA256 (secret m) ss"
    if "secret m2 = secret m @ replicate n (CHR 0x00)" "length (secret m2) \<le> BlockSize SHA256" for ss
    using that hmac_zero_padded [of "secret m" n SHA256 cr ss] by simp
  have keys: "hmac cr SHA256 (secret m2) ss \<noteq> hmac cr SHA256 (secret m) ss"
    if "inj (hash cr SHA256)" "length (secret m) \<le> BlockSize SHA256"
      "length (secret m2) \<le> BlockSize SHA256"
      "hmac_key cr SHA256 (secret m2) \<noteq> hmac_key cr SHA256 (secret m)" for ss
    using that hmac_inj [of cr SHA256 "secret m2" "secret m" ss ss] by blast
  have rej: "\<exists>err. SessionManager_ValidateToken cr m2 now'' (Compact ss hdr cl (hmac cr SHA256 (secret m) ss)) = Inl err"
    if "hmac cr SHA256 (secret m2) ss \<noteq> hmac cr SHA256 (secret m) ss"
      "hdr = [''typ'' \<mapsto> ''JWT'', ''alg'' \<mapsto> ''HS256'']" for ss hdr cl
    using that
    by (auto simp: SessionManager_ValidateToken_def ParseWithClaims_def GetSigningMethod_def)
  show ?thesis
    unfolding created
    using nbf pad keys rej
    by (auto simp: SessionManager_ValidateToken_def ParseWithClaims_def GetSigningMethod_def
        Validate_def verifyExpiresAt_def verifyNotBefore_def NewValidator_def CreateToken_claims_def
        json_SessionClaims_def json_string_valid)
qed

lemma ParseWithClaims_Inr:
  assumes "ParseWithClaims cr v now keyFunc tok = Inr token"
  shows "\<exists>ss hdr c sig alg m k.
     tok = Compact ss hdr c sig \<and> hdr ''alg'' = Some alg \<and> GetSigningMethod alg = Some m
     \<and> keyFunc \<lparr>Method = m, Header = hdr, Claims = c, Signature = sig, Valid = False\<rparr> = Inr k
     \<and> Verify cr m ss sig k \<and> Validate v now c = []
     \<and> token = \<lparr>Method = m, Header = hdr, Claims = c, Signature = sig, Valid = True\<rparr>"
proof (cases tok)
  case (Garbage raw)
  with assms show ?thesis by (simp add: ParseWithClaims_def)
next
  case (Compact ss hdr c sig)
  with assms show ?thesis
    by (auto simp: ParseWithClaims_def split: option.splits sum.splits if_splits list.splits)
qed

lemma GetSigningMethod_HMAC:
  "GetSigningMethod alg = Some (SigningMethodHMAC h) \<Longrightarrow> alg = Alg (SigningMethodHMAC h)"
  by (cases h) (auto simp: GetSigningMethod_def split: if_splits)

lemma ex_maxAge: "maxAge ex_manager = 3600 * Second"
  by (simp add: ex_manager_def NewSessionManager_def Second_def)


theorem session_token_round_trip_witness:
  "\<exists>tok. CreateToken ex_crypto ex_enc ex_manager (1000 * Second + 5) 123 ''canvas-user-1''
            ''course-456'' ''instructor'' = Inr tok
     \<and> (\<exists>cl. SessionManager_ValidateToken ex_crypto ex_manager (1010 * Second) tok = Inr cl
            \<and> UserID cl = 123 \<and> CanvasID cl = ''canvas-user-1'' \<and> CourseID cl = ''course-456''
            \<and> Role cl = ''instructor'')
     \<and> (\<exists>err. SessionManager_ValidateToken ex_crypto (NewSessionManager ''secret-2'' 3600)
                 (1010 * Second) tok = Inl err)
     \<and> SessionManager_ValidateToken ex_crypto
           (NewSessionManager (''test-secret'' @ replicate 2 (CHR 0x00)) 3600) (1010 * Second) tok
         = SessionManager_ValidateToken ex_crypto ex_manager (1010 * Second) tok"
proof -
  have t: "(1000 * Second + 5 :: int) \<le> 1010 * Second
      \<and> 1010 * Second < NewNumericDate (1000 * Second + 5 + maxAge ex_manager)"
    by (simp add: ex_maxAge NewNumericDate_def Second_def)
  have v: "valid_utf8 ''canvas-user-1'' \<and> valid_utf8 ''course-456'' \<and> valid_utf8 ''instructor''"
    by (intro conjI) code_simp+
  have mac: "hmac ex_crypto SHA256 (secret (NewSessionManager ''secret-2'' 3600)) ss
      \<noteq> hmac ex_crypto SHA256 (secret ex_manager) ss" for ss
    by (simp add: ex_crypto_def ex_manager_def NewSessionManager_def hmac_def hmac_key_def
        xor_byte_def)
  have ideal: "inj (hash ex_crypto SHA256) \<and> length (secret ex_manager) \<le> BlockSize SHA256
      \<and> length (secret (NewSessionManager ''secret-2'' 3600)) \<le> BlockSize SHA256
      \<and> hmac_key ex_crypto SHA256 (secret (NewSessionManager ''secret-2'' 3600))
          \<noteq> hmac_key ex_crypto SHA256 (secret ex_manager)"
    by (simp add: ex_crypto_def ex_manager_def NewSessionManager_def hmac_key_def)
  have pad: "secret (NewSessionManager (''test-secret'' @ replicate 2 (CHR 0x00)) 3600)
        = secret ex_manager @ replicate 2 (CHR 0x00)
      \<and> length (secret (NewSessionManager (''test-secret'' @ replicate 2 (CHR 0x00)) 3600))
          \<le> BlockSize SHA256"
    by (simp add: ex_manager_def NewSessionManager_def)
  from session_token_round_trip [of ex_crypto ex_enc ex_manager "1000 * Second + 5" 123
      "''canvas-user-1''" "''course-456''" "''instructor''" "1010 * Second"
      "NewSessionManager ''secret-2'' 3600" "1010 * Second" 0] t v mac ideal
  have A: "\<exists>tok. CreateToken ex_crypto ex_enc ex_manager (1000 * Second + 5) 123 ''canvas-user-1''
            ''course-456'' ''instructor'' = Inr tok
     \<and> (\<exists>cl. SessionManager_ValidateToken ex_crypto ex_manager (1010 * Second) tok = Inr cl
            \<and> UserID cl = 123 \<and> CanvasID cl = ''canvas-user-1'' \<and> CourseID cl = ''course-456''
            \<and> Role cl = ''instructor'')
     \<and> (\<exists>err. SessionManager_ValidateToken ex_crypto (NewSessionManager ''secret-2'' 3600)
                 (1010 * Second) tok = Inl err)"
    by blast
  from session_token_round_trip [of ex_crypto ex_enc ex_manager "1000 * Second + 5" 123
      "''canvas-user-1''" "''course-456''" "''instructor''" "1010 * Second"
      "NewSessionManager (''test-secret'' @ replicate 2 (CHR 0x00)) 3600" "1010 * Second" 2] pad
  have B: "\<exists>tok. CreateToken ex_crypto ex_enc ex_manager (1000 * Second + 5) 123 ''canvas-user-1''
            ''course-456'' ''instructor'' = Inr tok
     \<and> SessionManager_ValidateToken ex_crypto
           (NewSessionManager (''test-secret'' @ replicate 2 (CHR 0x00)) 3600) (1010 * Second) tok
         = SessionManager_ValidateToken ex_crypto ex_manager (1010 * Second) tok"
    by blast
  from A B show ?thesis
    by (metis sum.inject(2))
qed


text \<open>
  C6. \<open>SessionManager.ValidateToken\<close> returns an error for every token string whose header
  does not declare an algorithm of the HMAC family (the methods the type assertion on
  \<open>*jwt.SigningMethodHMAC\<close> lets through: HS256, HS384, HS512), and for every token whose
  \<open>exp\<close> claim is not after the present reading. Whenever it returns claims, the token
  declares an HMAC algorithm, its signature is the MAC of its signing input under the
  manager's secret, and its expiry, if it has one, lies ahead.
\<close>

theorem session_token_rejections:
  "(declared_alg tok \<notin> {Some ''HS256'', Some ''HS384'', Some ''HS512''} \<longrightarrow>
      (\<exists>err. SessionManager_ValidateToken cr m now tok = Inl err))
   \<and> (\<forall>c exp. token_claims tok = Some c \<and> ExpiresAt c = Some exp \<and> exp \<le> now \<longrightarrow>
      (\<exists>err. SessionManager_ValidateToken cr m now tok = Inl err))
   \<and> (\<forall>cl. SessionManager_ValidateToken cr m now tok = Inr cl \<longrightarrow>
      (\<exists>ss hdr sig h. tok = Compact ss hdr cl sig \<and> hdr ''alg'' = Some (Alg (SigningMethodHMAC h))
         \<and> sig = hmac cr h (secret m) ss
         \<and> (\<forall>exp. ExpiresAt cl = Some exp \<longrightarrow> now < exp)))"
proof -
  have accepted: "\<exists>ss hdr sig h. tok = Compact ss hdr cl sig
      \<and> hdr ''alg'' = Some (Alg (SigningMethodHMAC h)) \<and> sig = hmac cr h (secret m) ss
      \<and> (\<forall>exp. ExpiresAt cl = Some exp \<longrightarrow> now < exp)"
    if ok: "SessionManager_ValidateToken cr m now tok = Inr cl" for cl
  proof -
    from ok obtain token where p: "ParseWithClaims cr NewValidator now (session_keyFunc m) tok = Inr token"
      and cl: "cl = Claims token"
      by (auto simp: SessionManager_ValidateToken_def split: sum.splits if_splits)
    from ParseWithClaims_Inr [OF p] obtain ss hdr c sig alg meth k where
      tok: "tok = Compact ss hdr c sig" and alg: "hdr ''alg'' = Some alg"
      and meth: "GetSigningMethod alg = Some meth"
      and k: "session_keyFunc m \<lparr>Method = meth, Header = hdr, Claims = c, Signature = sig, Valid = False\<rparr> = Inr k"
      and ver: "Verify cr meth ss sig k" and val: "Validate NewValidator now c = []"
      and token: "token = \<lparr>Method = meth, Header = hdr, Claims = c, Signature = sig, Valid = True\<rparr>"
      by blast
    from k obtain h where h: "meth = SigningMethodHMAC h" and kk: "k = BytesKey (secret m)"
      by (cases meth) auto
    from meth h have "alg = Alg (SigningMethodHMAC h)"
      by (simp add: GetSigningMethod_HMAC)
    moreover from ver h kk have "sig = hmac cr h (secret m) ss"
      by simp
    moreover from val have "\<forall>exp. ExpiresAt c = Some exp \<longrightarrow> now < exp"
      by (auto simp: Validate_def verifyExpiresAt_def split: option.splits if_splits)
    ultimately show ?thesis
      using tok alg cl token by (intro exI [of _ ss] exI [of _ hdr] exI [of _ sig] exI [of _ h]) simp
  qed
  have rejected: "\<exists>err. SessionManager_ValidateToken cr m now tok = Inl err"
    if "\<And>cl. SessionManager_ValidateToken cr m now tok \<noteq> Inr cl"
    using that by (cases "SessionManager_ValidateToken cr m now tok") auto
  have alg: "\<exists>err. SessionManager_ValidateToken cr m now tok = Inl err"
    if na: "declared_alg tok \<notin> {Some ''HS256'', Some ''HS384'', Some ''HS512''}"
  proof (rule rejected)
    fix cl
    show "SessionManager_ValidateToken cr m now tok \<noteq> Inr cl"
    proof
      assume "SessionManager_ValidateToken cr m now tok = Inr cl"
      from accepted [OF this] obtain ss hdr sig h where
        "tok = Compact ss hdr cl sig" "hdr ''alg'' = Some (Alg (SigningMethodHMAC h))"
        by blast
      with na show False by (cases h) auto
    qed
  qed
  have expd: "\<exists>err. SessionManager_ValidateToken cr m now tok = Inl err"
    if e: "token_claims tok = Some c" "ExpiresAt c = Some exp" "exp \<le> now" for c exp
  proof (rule rejected)
    fix cl
    show "SessionManager_ValidateToken cr m now tok \<noteq> Inr cl"
    proof
      assume "SessionManager_ValidateToken cr m now tok = Inr cl"
      from accepted [OF this] obtain ss hdr sig h where
        "tok = Compact ss hdr cl sig" "\<forall>exp. ExpiresAt cl = Some exp \<longrightarrow> now < exp"
        by blast
      with e show False by auto
    qed
  qed
  from accepted alg expd show ?thesis by blast
qed

theorem session_token_rejections_witness:
  "(\<exists>err. SessionManager_ValidateToken ex_crypto ex_manager (2000 * Second) ex_rs256_token = Inl err)
   \<and> (\<exists>err. SessionManager_ValidateToken ex_crypto ex_manager (4600 * Second) ex_session_token = Inl err)
   \<and> SessionManager_ValidateToken ex_crypto ex_manager (2000 * Second) ex_session_token
       = Inr ex_session_claims
   \<and> (\<exists>ss hdr sig h. ex_session_token = Compact ss hdr ex_session_claims sig
         \<and> hdr ''alg'' = Some (Alg (SigningMethodHMAC h)) \<and> sig = hmac ex_crypto h (secret ex_manager) ss)"
proof -
  have a: "declared_alg ex_rs256_token \<notin> {Some ''HS256'', Some ''HS384'', Some ''HS512''}"
    by (simp add: ex_rs256_token_def)
  have b: "token_claims ex_session_token = Some ex_session_claims
      \<and> ExpiresAt ex_session_claims = Some (4600 * Second) \<and> (4600 * Second :: int) \<le> 4600 * Second"
    by (simp add: ex_session_token_def ex_session_claims_def)
  have c: "SessionManager_ValidateToken ex_crypto ex_manager (2000 * Second) ex_session_token
      = Inr ex_session_claims"
    by (simp add: SessionManager_ValidateToken_def ParseWithClaims_def ex_session_token_def
        GetSigningMethod_def ex_crypto_def ex_manager_def NewSessionManager_def Validate_def
        verifyExpiresAt_def verifyNotBefore_def NewValidator_def ex_session_claims_def Second_def)
  from session_token_rejections [of ex_rs256_token ex_crypto ex_manager "2000 * Second"] a
  have 1: "\<exists>err. SessionManager_ValidateToken ex_crypto ex_manager (2000 * Second) ex_rs256_token = Inl err"
    by blast
  from session_token_rejections [of ex_session_token ex_crypto ex_manager "4600 * Second"] b
  have 2: "\<exists>err. SessionManager_ValidateToken ex_crypto ex_manager (4600 * Second) ex_session_token = Inl err"
    by blast
  from session_token_rejections [of ex_session_token ex_crypto ex_manager "2000 * Second"] c
  have 3: "\<exists>ss hdr sig h. ex_session_token = Compact ss hdr ex_session_claims sig
         \<and> hdr ''alg'' = Some (Alg (SigningMethodHMAC h)) \<and> sig = hmac ex_crypto h (secret ex_manager) ss"
    by blast
  from 1 2 3 c show ?thesis by blast
qed

text \<open>
  C2. \<open>JWTValidator.ValidateToken\<close> returns an error, and no claims, for every token string
  whose \<open>nonce\<close> claim is not the expected nonce, whatever the platform, the key set, the
  outcome of the signature check and the issuer and audience are.
\<close>

theorem nonce_mismatch_rejected:
  "(\<forall>c. token_claims tok = Some c \<longrightarrow> LTIClaims.Nonce c \<noteq> expectedNonce) \<longrightarrow>
     (\<exists>err. fst (JWTValidator_ValidateToken cr fetch now v tok platform expectedNonce) = Inl err)"
proof
  assume mismatch: "\<forall>c. token_claims tok = Some c \<longrightarrow> LTIClaims.Nonce c \<noteq> expectedNonce"
  show "\<exists>err. fst (JWTValidator_ValidateToken cr fetch now v tok platform expectedNonce) = Inl err"
  proof (cases "getKeyfunc fetch v (JWKSEndpoint platform)")
    case (Pair res v')
    show ?thesis
    proof (cases res)
      case (Inl err)
      with Pair show ?thesis by (simp add: JWTValidator_ValidateToken_def)
    next
      case (Inr kf)
      show ?thesis
      proof (cases "ParseWithClaims cr \<lparr>expectedAud = Platform.ClientID platform,
                                     expectedIss = Platform.Issuer platform\<rparr> now kf tok")
        case (Inl err)
        with Pair Inr show ?thesis by (simp add: JWTValidator_ValidateToken_def)
      next
        case parsed: (Inr token)
        from ParseWithClaims_Inr [OF parsed] obtain ss hdr c sig where
          "tok = Compact ss hdr c sig" and "Claims token = c"
          by auto
        with mismatch have "LTIClaims.Nonce (Claims token) \<noteq> expectedNonce" by simp
        with Pair Inr parsed show ?thesis
          by (simp add: JWTValidator_ValidateToken_def Let_def)
      qed
    qed
  qed
qed

lemma ex_id_token_valid:
  "fst (JWTValidator_ValidateToken ex_crypto ex_fetch (2000 * Second) NewJWTValidator
          ex_id_token ex_platform ''nonce-1'') = Inr ex_lti_claims"
  by (simp add: JWTValidator_ValidateToken_def getKeyfunc_def NewJWTValidator_def ex_fetch_def
      ex_platform_def ParseWithClaims_def ex_id_token_def GetSigningMethod_def ex_crypto_def
      Validate_def verifyExpiresAt_def verifyNotBefore_def verifyAudience_def verifyIssuer_def
      ex_lti_claims_def Second_def Let_def)

theorem nonce_mismatch_rejected_witness:
  "token_claims ex_id_token = Some ex_lti_claims \<and> LTIClaims.Nonce ex_lti_claims \<noteq> ''nonce-2''
   \<and> fst (JWTValidator_ValidateToken ex_crypto ex_fetch (2000 * Second) NewJWTValidator
            ex_id_token ex_platform ''nonce-1'') = Inr ex_lti_claims
   \<and> (\<exists>err. fst (JWTValidator_ValidateToken ex_crypto ex_fetch (2000 * Second) NewJWTValidator
                   ex_id_token ex_platform ''nonce-2'') = Inl err)"
proof -
  have a: "token_claims ex_id_token = Some ex_lti_claims"
    by (simp add: ex_id_token_def)
  have b: "LTIClaims.Nonce ex_lti_claims \<noteq> ''nonce-2''"
    by (simp add: ex_lti_claims_def)
  from nonce_mismatch_rejected [of ex_id_token "''nonce-2''" ex_crypto ex_fetch "2000 * Second"
      NewJWTValidator ex_platform] a b
  have "\<exists>err. fst (JWTValidator_ValidateToken ex_crypto ex_fetch (2000 * Second) NewJWTValidator
                   ex_id_token ex_platform ''nonce-2'') = Inl err"
    by simp
  with a b ex_id_token_valid show ?thesis by simp
qed

section \<open>Properties of the platform repository\<close>

lemma fold_least_mem:
  "fold (\<lambda>x best. if k x < k best then x else best) rs r \<in> set (r # rs)"
proof (induction rs arbitrary: r)
  case Nil
  then show ?case by simp
next
  case (Cons a rs)
  from Cons [of "if k a < k r then a else r"] show ?case by auto
qed

lemma least_by_mem: "least_by k rows = Some r \<Longrightarrow> r \<in> set rows"
  using fold_least_mem [of k]
  by (cases rows) (auto simp: least_by_def simp del: set_ConsD)

lemma least_by_None: "least_by k rows = None \<longleftrightarrow> rows = []"
  by (cases rows) (simp_all add: least_by_def)

lemma FindByIssuer_Inr:
  assumes "FindByIssuer d issuer = Inr existing"
  shows "existing \<in> set (platforms d) \<and> Platform.Issuer existing = issuer
    \<and> Platform.DeletedAt existing = None"
proof -
  from assms have "least_by Platform.ID
      (filter (\<lambda>r. Platform.Issuer r = issuer \<and> Platform.DeletedAt r = None) (platforms d))
      = Some existing"
    by (simp add: FindByIssuer_def platform_First_def split: option.splits)
  from least_by_mem [OF this] show ?thesis by simp
qed

lemma FindByIssuer_Inl:
  assumes "FindByIssuer d issuer = Inl err"
  shows "\<forall>r \<in> set (platforms d). Platform.Issuer r = issuer \<longrightarrow> Platform.DeletedAt r \<noteq> None"
proof -
  from assms have "filter (\<lambda>r. Platform.Issuer r = issuer \<and> Platform.DeletedAt r = None)
      (platforms d) = []"
    by (simp add: FindByIssuer_def platform_First_def least_by_None split: option.splits)
  then show ?thesis by (auto simp: filter_empty_conv)
qed

lemma FindByIssuer_live:
  assumes "r \<in> set (platforms d)" and "Platform.Issuer r = issuer" and "Platform.DeletedAt r = None"
  shows "\<exists>existing. FindByIssuer d issuer = Inr existing"
proof (cases "FindByIssuer d issuer")
  case (Inl err)
  from FindByIssuer_Inl [OF this] assms show ?thesis by blast
next
  case (Inr existing)
  then show ?thesis by blast
qed

lemma distinct_map_head: "distinct (map f (x # xs)) \<Longrightarrow> y \<in> set xs \<Longrightarrow> f y \<noteq> f x"
proof -
  assume "distinct (map f (x # xs))" and y: "y \<in> set xs"
  then have "f x \<notin> f ` set xs" by simp
  with y show "f y \<noteq> f x" by (metis imageI)
qed

lemma unique_by:
  "distinct (map f xs) \<Longrightarrow> x \<in> set xs \<Longrightarrow> filter (\<lambda>y. f y = f x) xs = [x]"
proof (induction xs)
  case Nil
  then show ?case by simp
next
  case (Cons a xs)
  show ?case
  proof (cases "a = x")
    case True
    with Cons.prems have "\<forall>y \<in> set xs. f y \<noteq> f x"
      using distinct_map_head [of f x xs] by blast
    then have "filter (\<lambda>y. f y = f x) xs = []" by (simp add: filter_empty_conv)
    with True show ?thesis by simp
  next
    case False
    with Cons.prems have "x \<in> set xs" and "f a \<noteq> f x" by auto
    with Cons show ?thesis by simp
  qed
qed

lemma replace_by_key:
  assumes "distinct (map k xs)" and "e \<in> set xs" and "k p' = k e"
  shows "map k (map (\<lambda>r. if k r = k e then p' else r) xs) = map k xs"
  using assms by (induction xs) auto

lemma replace_filter:
  assumes "distinct (map k xs)" and "distinct (map f xs)" and "e \<in> set xs" and "f p' = f e"
  shows "filter (\<lambda>y. f y = f e) (map (\<lambda>r. if k r = k e then p' else r) xs) = [p']"
  using assms
proof (induction xs)
  case Nil
  then show ?case by simp
next
  case (Cons a xs)
  show ?case
  proof (cases "a = e")
    case True
    with Cons.prems have nk: "\<forall>y \<in> set xs. k y \<noteq> k e" and nf: "\<forall>y \<in> set xs. f y \<noteq> f e"
      using distinct_map_head [of k e xs] distinct_map_head [of f e xs] by blast+
    from nk have "map (\<lambda>r. if k r = k e then p' else r) xs = xs"
      by (simp add: map_idI)
    moreover from nf have "filter (\<lambda>y. f y = f e) xs = []"
      by (simp add: filter_empty_conv)
    ultimately show ?thesis using True Cons.prems(4) by simp
  next
    case False
    with Cons.prems have "e \<in> set xs" and "f a \<noteq> f e" and "k a \<noteq> k e" by auto
    with Cons show ?thesis by simp
  qed
qed

lemma replace_map_other:
  assumes "distinct (map k xs)" and "distinct (map f xs)" and "e \<in> set xs" and "f p' = f e"
  shows "map f (map (\<lambda>r. if k r = k e then p' else r) xs) = map f xs"
  using assms
proof (induction xs)
  case Nil
  then show ?case by simp
next
  case (Cons a xs)
  show ?case
  proof (cases "a = e")
    case True
    with Cons.prems have nk: "\<forall>y \<in> set xs. k y \<noteq> k e"
      using distinct_map_head [of k e xs] by blast
    then have "map (\<lambda>r. if k r = k e then p' else r) xs = xs"
      by (simp add: map_idI)
    with True Cons.prems(4) show ?thesis by simp
  next
    case False
    with Cons.prems have "e \<in> set xs" and "k a \<noteq> k e" by auto
    with Cons show ?thesis by simp
  qed
qed

lemma next_key_fresh_aux:
  fixes k :: "'r \<Rightarrow> nat"
  shows "r \<in> set rows \<Longrightarrow> k r \<le> fold (\<lambda>r m. max (k r) m) rows m0"
    and "m0 \<le> fold (\<lambda>r m. max (k r) m) rows m0"
proof (induction rows arbitrary: m0)
  case Nil
  { case 1 then show ?case by simp }
  { case 2 show ?case by simp }
next
  case (Cons a rows)
  { case 1
    show ?case
    proof (cases "r = a")
      case True
      have "max (k a) m0 \<le> fold (\<lambda>r m. max (k r) m) rows (max (k a) m0)"
        by (rule Cons.IH(2))
      with True show ?thesis by simp
    next
      case False
      with 1 have "r \<in> set rows" by simp
      from Cons.IH(1) [OF this] show ?thesis by simp
    qed }
  { case 2
    have "max (k a) m0 \<le> fold (\<lambda>r m. max (k r) m) rows (max (k a) m0)"
      by (rule Cons.IH(2))
    then show ?case by simp }
qed

lemma next_key_fresh: "r \<in> set rows \<Longrightarrow> k r < next_key k rows"
  using next_key_fresh_aux(1) [of r rows k 0] by (simp add: next_key_def)

lemma next_key_pos: "0 < next_key k rows"
  by (simp add: next_key_def)

lemma table_ok_D:
  assumes "table_ok d"
  shows "distinct (map Platform.ID (platforms d))" and "distinct (map Platform.Issuer (platforms d))"
    and "r \<in> set (platforms d) \<Longrightarrow> 0 < Platform.ID r"
  using assms by (auto simp: table_ok_def list_all_iff)

lemma Upsert_existing:
  fixes now :: time
  assumes ok: "table_ok d" and found: "FindByIssuer d (Platform.Issuer p) = Inr e"
  defines "p' \<equiv> p\<lparr>Platform.ID := Platform.ID e, Platform.CreatedAt := Platform.CreatedAt e,
                    Platform.UpdatedAt := now\<rparr>"
  defines "d' \<equiv> d\<lparr>platforms := map (\<lambda>r. if Platform.ID r = Platform.ID e then p' else r) (platforms d)\<rparr>"
  shows "Upsert now d p = (None, p', d')"
    and "rows_of_issuer d' (Platform.Issuer p) = [p']"
    and "table_ok d'"
proof -
  from FindByIssuer_Inr [OF found] have e: "e \<in> set (platforms d)"
    and iss: "Platform.Issuer e = Platform.Issuer p" by simp_all
  note dk = table_ok_D(1) [OF ok] and df = table_ok_D(2) [OF ok]
  from table_ok_D(3) [OF ok e] have pos: "Platform.ID e \<noteq> 0" by simp
  have no_clash: "\<not> list_ex (\<lambda>r. Platform.Issuer r = Platform.Issuer p)
      (filter (\<lambda>r. Platform.ID r \<noteq> Platform.ID e) (platforms d))"
  proof
    assume "list_ex (\<lambda>r. Platform.Issuer r = Platform.Issuer p)
      (filter (\<lambda>r. Platform.ID r \<noteq> Platform.ID e) (platforms d))"
    then obtain r where r: "r \<in> set (platforms d)" "Platform.ID r \<noteq> Platform.ID e"
      "Platform.Issuer r = Platform.Issuer e"
      using iss by (auto simp: list_ex_iff)
    from r(1,3) have "r \<in> set (filter (\<lambda>y. Platform.Issuer y = Platform.Issuer e) (platforms d))"
      by simp
    with unique_by [OF df e] have "r = e" by simp
    with r(2) show False by simp
  qed
  have has: "list_ex (\<lambda>r. Platform.ID r = Platform.ID e) (platforms d)"
    using e by (auto simp: list_ex_iff)
  show "Upsert now d p = (None, p', d')"
    using found pos no_clash has
    by (simp add: Upsert_def Update_def platform_Save_def p'_def d'_def Let_def)
  have fp: "Platform.Issuer p' = Platform.Issuer e" and kp: "Platform.ID p' = Platform.ID e"
    by (simp_all add: p'_def iss)
  from replace_filter [OF dk df e fp] iss
  show "rows_of_issuer d' (Platform.Issuer p) = [p']"
    by (simp add: rows_of_issuer_def d'_def)
  have "map Platform.ID (platforms d') = map Platform.ID (platforms d)"
    using replace_by_key [OF dk e kp] by (simp add: d'_def)
  moreover have "map Platform.Issuer (platforms d') = map Platform.Issuer (platforms d)"
    using replace_map_other [OF dk df e fp] by (simp add: d'_def)
  moreover have "list_all (\<lambda>r. 0 < Platform.ID r) (platforms d')"
    using ok pos kp by (auto simp: table_ok_def list_all_iff d'_def)
  ultimately show "table_ok d'"
    using ok by (simp add: table_ok_def)
qed


lemma FindByIssuer_none:
  assumes "rows_of_issuer d issuer = []"
  shows "FindByIssuer d issuer = Inl ErrRecordNotFound"
proof -
  from assms have "\<forall>r \<in> set (platforms d). Platform.Issuer r \<noteq> issuer"
    by (simp add: rows_of_issuer_def filter_empty_conv)
  then have "filter (\<lambda>r. Platform.Issuer r = issuer \<and> Platform.DeletedAt r = None) (platforms d) = []"
    by (simp add: filter_empty_conv)
  then show ?thesis
    by (simp add: FindByIssuer_def platform_First_def least_by_def)
qed

lemma Create_appends:
  fixes now :: time
  assumes ok: "table_ok d"
    and free_issuer: "\<not> list_ex (\<lambda>r. Platform.Issuer r = Platform.Issuer p) (platforms d)"
    and free_key: "Platform.ID p = 0 \<or> \<not> list_ex (\<lambda>r. Platform.ID r = Platform.ID p) (platforms d)"
  defines "p' \<equiv> p\<lparr>Platform.CreatedAt := (if Platform.CreatedAt p = zero_Time then now
                                           else Platform.CreatedAt p),
                    Platform.UpdatedAt := (if Platform.UpdatedAt p = zero_Time then now
                                           else Platform.UpdatedAt p),
                    Platform.ID := (if Platform.ID p = 0 then next_key Platform.ID (platforms d)
                                     else Platform.ID p)\<rparr>"
  defines "d' \<equiv> d\<lparr>platforms := platforms d @ [p']\<rparr>"
  shows "Create now d p = (None, p', d')"
    and "rows_of_issuer d' (Platform.Issuer p) = [p']"
    and "table_ok d'"
proof -
  have key: "\<not> list_ex (\<lambda>r. Platform.ID r = Platform.ID p') (platforms d)"
  proof (cases "Platform.ID p = 0")
    case True
    then have "Platform.ID p' = next_key Platform.ID (platforms d)"
      by (simp add: p'_def)
    moreover have "Platform.ID r \<noteq> next_key Platform.ID (platforms d)"
      if "r \<in> set (platforms d)" for r
      using next_key_fresh [OF that, of Platform.ID] by simp
    ultimately show ?thesis
      by (auto simp: list_ex_iff)
  next
    case False
    with free_key show ?thesis by (simp add: p'_def)
  qed
  have iss: "Platform.Issuer p' = Platform.Issuer p"
    by (simp add: p'_def)
  show "Create now d p = (None, p', d')"
    using key free_issuer iss unfolding p'_def d'_def
    by (simp add: Create_def platform_Create_def Let_def)
  from free_issuer have "filter (\<lambda>r. Platform.Issuer r = Platform.Issuer p) (platforms d) = []"
    by (simp add: list_ex_iff filter_empty_conv)
  with iss show "rows_of_issuer d' (Platform.Issuer p) = [p']"
    by (simp add: rows_of_issuer_def d'_def)
  have pos: "0 < Platform.ID p'"
    using next_key_pos [of Platform.ID "platforms d"] by (simp add: p'_def)
  from key have "Platform.ID p' \<notin> Platform.ID ` set (platforms d)"
    by (auto simp: list_ex_iff)
  moreover from free_issuer iss have "Platform.Issuer p' \<notin> Platform.Issuer ` set (platforms d)"
    by (auto simp: list_ex_iff)
  ultimately show "table_ok d'"
    using ok pos by (simp add: table_ok_def d'_def)
qed

lemma Create_failure:
  assumes "Create now d p = (Some err, p1, d1)"
  shows "d1 = d"
  using assms by (auto simp: Create_def platform_Create_def Let_def split: if_splits)

lemma Create_success:
  assumes "Create now d p = (None, p1, d1)"
  shows "\<not> list_ex (\<lambda>r. Platform.Issuer r = Platform.Issuer p) (platforms d)"
    and "Platform.ID p = 0 \<or> \<not> list_ex (\<lambda>r. Platform.ID r = Platform.ID p) (platforms d)"
  using assms by (auto simp: Create_def platform_Create_def Let_def split: if_splits)

lemma Upsert_success:
  assumes ok: "table_ok d" and up: "Upsert now d p = (None, p1, d1)"
  shows "table_ok d1 \<and> rows_of_issuer d1 (Platform.Issuer p) = [p1]
    \<and> Platform.DeletedAt p1 = Platform.DeletedAt p"
proof (cases "FindByIssuer d (Platform.Issuer p)")
  case (Inr e)
  from Upsert_existing [OF ok Inr, of now] up show ?thesis by simp
next
  case (Inl err)
  with up have cr: "Create now d p = (None, p1, d1)"
    by (simp add: Upsert_def)
  from Create_appends [OF ok Create_success [OF cr], of now] cr show ?thesis by simp
qed

lemma Upsert_again:
  assumes ok: "table_ok d" and one: "rows_of_issuer d (Platform.Issuer q) = [r]"
    and up: "Upsert now d q = (err, q2, d2)"
  shows "length (rows_of_issuer d2 (Platform.Issuer q)) = 1
    \<and> (Platform.DeletedAt r = None \<longrightarrow> err = None \<and> Platform.ID q2 = Platform.ID r)"
proof -
  from one have "r \<in> set (rows_of_issuer d (Platform.Issuer q))" by simp
  then have r: "r \<in> set (platforms d)" and ri: "Platform.Issuer r = Platform.Issuer q"
    by (simp_all add: rows_of_issuer_def)
  show ?thesis
  proof (cases "FindByIssuer d (Platform.Issuer q)")
    case (Inr e)
    from FindByIssuer_Inr [OF Inr] have "e \<in> set (rows_of_issuer d (Platform.Issuer q))"
      by (simp add: rows_of_issuer_def)
    with one have "e = r" by simp
    with Upsert_existing(1,2) [OF ok Inr, of now] up show ?thesis by auto
  next
    case (Inl e)
    from FindByIssuer_Inl [OF Inl] r ri have dead: "Platform.DeletedAt r \<noteq> None" by blast
    from Inl up have cr: "Create now d q = (err, q2, d2)"
      by (simp add: Upsert_def)
    from r ri have "list_ex (\<lambda>x. Platform.Issuer x = Platform.Issuer q) (platforms d)"
      by (auto simp: list_ex_iff)
    with cr have "d2 = d"
      by (auto simp: Create_def platform_Create_def Let_def split: if_splits)
    with one dead show ?thesis by auto
  qed
qed

text \<open>
  C8, as stated, fails where it promises a creation for every record whose issuer is not
  registered: \<open>Upsert\<close> passes the record on to \<open>Create\<close> as it is, and a record that
  carries the key of another row is refused by the primary-key constraint. Nothing is
  created and the error is returned.
\<close>

theorem Upsert_key_clash_counterexample:
  "FindByIssuer ex_db (Platform.Issuer ex_clash) = Inl ErrRecordNotFound
   \<and> fst (Upsert 50 ex_db ex_clash) = Some (ErrConstraintFailed ''lti_platforms.id'')
   \<and> snd (snd (Upsert 50 ex_db ex_clash)) = ex_db
   \<and> rows_of_issuer ex_db (Platform.Issuer ex_clash) = []"
  by (simp add: Upsert_def FindByIssuer_def platform_First_def least_by_def Create_def
      platform_Create_def rows_of_issuer_def ex_db_def ex_clash_def ex_other_def ex_update_def
      ex_platform_def Let_def)

text \<open>
  A soft-deleted row keeps its place in the unique index of the issuer: after \<open>Delete\<close>,
  \<open>FindByIssuer\<close> no longer finds the platform, and \<open>Upsert\<close> of its issuer falls through to
  \<open>Create\<close>, which the index refuses. The amended statement of C8 below does not speak of
  this case.
\<close>

lemma Upsert_after_Delete_refused:
  "FindByIssuer (snd (Delete 20 ex_db 1)) (Platform.Issuer ex_update) = Inl ErrRecordNotFound
   \<and> fst (Upsert 50 (snd (Delete 20 ex_db 1)) ex_update)
       = Some (ErrConstraintFailed ''lti_platforms.issuer'')
   \<and> snd (snd (Upsert 50 (snd (Delete 20 ex_db 1)) ex_update)) = snd (Delete 20 ex_db 1)"
  by (simp add: Upsert_def FindByIssuer_def platform_First_def least_by_def Create_def
      platform_Create_def Delete_def platform_Delete_def next_key_def ex_db_def ex_update_def
      ex_platform_def Let_def)

text \<open>
  C8, amended. On a table that satisfies its constraints, \<open>Upsert\<close> is keyed by the issuer.
  If a platform with the record's issuer is found, that row is updated in place: it keeps its
  key and its creation time, takes every other field from the record, and remains the only
  row of the issuer. If no row holds the issuer and the record's key is zero or unused, one
  row is appended for it. And after a successful \<open>Upsert\<close>, a second \<open>Upsert\<close> of the same
  issuer leaves exactly one row for the issuer, under the same key.
\<close>

theorem Upsert_keyed_by_issuer:
  assumes "table_ok d"
  shows "(\<forall>existing. FindByIssuer d (Platform.Issuer p) = Inr existing \<longrightarrow>
            (\<exists>p' d'. Upsert now d p = (None, p', d')
               \<and> p' = p\<lparr>Platform.ID := Platform.ID existing,
                          Platform.CreatedAt := Platform.CreatedAt existing,
                          Platform.UpdatedAt := now\<rparr>
               \<and> platforms d' = map (\<lambda>r. if Platform.ID r = Platform.ID existing then p' else r)
                                   (platforms d)
               \<and> rows_of_issuer d' (Platform.Issuer p) = [p']))
    \<and> (rows_of_issuer d (Platform.Issuer p) = []
         \<and> (Platform.ID p = 0 \<or> Platform.ID p \<notin> Platform.ID ` set (platforms d)) \<longrightarrow>
            (\<exists>p' d'. Upsert now d p = (None, p', d') \<and> platforms d' = platforms d @ [p']
               \<and> rows_of_issuer d' (Platform.Issuer p) = [p']))
    \<and> (\<forall>p1 d1 q err q2 d2.
          Upsert now d p = (None, p1, d1) \<and> Platform.Issuer q = Platform.Issuer p
          \<and> Upsert now' d1 q = (err, q2, d2) \<longrightarrow>
            length (rows_of_issuer d2 (Platform.Issuer p)) = 1
            \<and> (Platform.DeletedAt p = None \<longrightarrow> err = None \<and> Platform.ID q2 = Platform.ID p1))"
proof -
  have A: "\<exists>p' d'. Upsert now d p = (None, p', d')
               \<and> p' = p\<lparr>Platform.ID := Platform.ID existing,
                          Platform.CreatedAt := Platform.CreatedAt existing,
                          Platform.UpdatedAt := now\<rparr>
               \<and> platforms d' = map (\<lambda>r. if Platform.ID r = Platform.ID existing then p' else r)
                                   (platforms d)
               \<and> rows_of_issuer d' (Platform.Issuer p) = [p']"
    if "FindByIssuer d (Platform.Issuer p) = Inr existing" for existing
    using Upsert_existing(1,2) [OF assms that, of now] by simp
  have B: "\<exists>p' d'. Upsert now d p = (None, p', d') \<and> platforms d' = platforms d @ [p']
               \<and> rows_of_issuer d' (Platform.Issuer p) = [p']"
    if new: "rows_of_issuer d (Platform.Issuer p) = []
         \<and> (Platform.ID p = 0 \<or> Platform.ID p \<notin> Platform.ID ` set (platforms d))"
  proof -
    from new have a: "\<not> list_ex (\<lambda>r. Platform.Issuer r = Platform.Issuer p) (platforms d)"
      by (auto simp: rows_of_issuer_def filter_empty_conv list_ex_iff)
    from new have b: "Platform.ID p = 0 \<or> \<not> list_ex (\<lambda>r. Platform.ID r = Platform.ID p) (platforms d)"
      by (auto simp: list_ex_iff image_iff)
    from new have "Upsert now d p = Create now d p"
      by (simp add: Upsert_def FindByIssuer_none)
    with Create_appends(1,2) [OF assms a b, of now] show ?thesis
      by simp
  qed
  have C: "length (rows_of_issuer d2 (Platform.Issuer p)) = 1
            \<and> (Platform.DeletedAt p = None \<longrightarrow> err = None \<and> Platform.ID q2 = Platform.ID p1)"
    if h: "Upsert now d p = (None, p1, d1) \<and> Platform.Issuer q = Platform.Issuer p
          \<and> Upsert now' d1 q = (err, q2, d2)" for p1 d1 q err q2 d2
  proof -
    from h have up: "Upsert now d p = (None, p1, d1)" by simp
    from Upsert_success [OF assms up] h have ok1: "table_ok d1"
      and one: "rows_of_issuer d1 (Platform.Issuer q) = [p1]"
      and del: "Platform.DeletedAt p1 = Platform.DeletedAt p"
      by simp_all
    from h have up2: "Upsert now' d1 q = (err, q2, d2)"
      and same: "Platform.Issuer q = Platform.Issuer p" by simp_all
    from Upsert_again [OF ok1 one up2] same del show ?thesis
      by simp
  qed
  from A B C show ?thesis by blast
qed

lemma ex_db_ok: "table_ok ex_db"
  by (simp add: table_ok_def ex_db_def ex_platform_def)

lemma ex_db_found: "FindByIssuer ex_db (Platform.Issuer ex_update) = Inr ex_platform"
  by (simp add: FindByIssuer_def platform_First_def least_by_def ex_db_def ex_update_def
      ex_platform_def)

lemma ex_db_new: "rows_of_issuer ex_db (Platform.Issuer ex_other) = []
    \<and> (Platform.ID ex_other = 0 \<or> Platform.ID ex_other \<notin> Platform.ID ` set (platforms ex_db))"
  by (simp add: rows_of_issuer_def ex_db_def ex_other_def ex_update_def ex_platform_def)

theorem Upsert_keyed_by_issuer_witness:
  "table_ok ex_db
   \<and> (\<exists>p' d'. Upsert 50 ex_db ex_update = (None, p', d') \<and> Platform.ID p' = 1
         \<and> Platform.ClientID p' = ''client-456''
         \<and> length (platforms d') = 1 \<and> rows_of_issuer d' (Platform.Issuer ex_update) = [p'])
   \<and> (\<exists>p1 d1 err q2 d2. Upsert 50 ex_db ex_other = (None, p1, d1)
         \<and> platforms d1 = platforms ex_db @ [p1]
         \<and> Upsert 60 d1 ex_other = (err, q2, d2)
         \<and> length (rows_of_issuer d2 (Platform.Issuer ex_other)) = 1
         \<and> err = None \<and> Platform.ID q2 = Platform.ID p1)"
proof -
  note U = Upsert_keyed_by_issuer [OF ex_db_ok]
  from U [of ex_update 50] ex_db_found
  obtain p' d' where a: "Upsert 50 ex_db ex_update = (None, p', d')"
    and a1: "p' = ex_update\<lparr>Platform.ID := Platform.ID ex_platform,
                          Platform.CreatedAt := Platform.CreatedAt ex_platform,
                          Platform.UpdatedAt := 50\<rparr>"
    and a2: "platforms d' = map (\<lambda>r. if Platform.ID r = Platform.ID ex_platform then p' else r)
                                   (platforms ex_db)"
    and a3: "rows_of_issuer d' (Platform.Issuer ex_update) = [p']"
    by blast
  from a1 a2 have a4: "Platform.ID p' = 1 \<and> Platform.ClientID p' = ''client-456''
      \<and> length (platforms d') = 1"
    by (simp add: ex_platform_def ex_update_def ex_db_def)
  from U [of ex_other 50] ex_db_new
  obtain p1 d1 where b: "Upsert 50 ex_db ex_other = (None, p1, d1)"
    and b1: "platforms d1 = platforms ex_db @ [p1]"
    by blast
  obtain err q2 d2 where c: "Upsert 60 d1 ex_other = (err, q2, d2)"
    by (cases "Upsert 60 d1 ex_other") auto
  have del: "Platform.DeletedAt ex_other = None"
    by (simp add: ex_other_def ex_update_def ex_platform_def)
  from U [of ex_other 50 60] b c del
  have c1: "length (rows_of_issuer d2 (Platform.Issuer ex_other)) = 1
      \<and> err = None \<and> Platform.ID q2 = Platform.ID p1"
    by blast
  from ex_db_ok a a3 a4 b b1 c c1 show ?thesis
    by blast
qed

section \<open>Properties of the launch handler\<close>

lemma Launch_rejects:
  assumes "launch_validation cr fetch now r (h, hdl) = Inl f"
    and "Launch cr enc fetch now r (h, hdl) = (resp, h', hdl')"
  shows "(Code resp = StatusBadRequest \<or> Code resp = StatusUnauthorized) \<and> Body resp \<noteq> NoBody
    \<and> Location resp = None \<and> SetCookies resp = [] \<and> h' = h \<and> db hdl' = db hdl
    \<and> sessionManager hdl' = sessionManager hdl"
  using assms
  by (auto simp: launch_validation_def Launch_def Let_def Get_def JSON_def
      split: if_splits option.splits sum.splits prod.splits)

lemma Launch_cookie_validated:
  assumes "launch_validation cr fetch now r (h, hdl) = Inr (claims, platform, stateData)"
    and "Launch cr enc fetch now r (h, hdl) = (resp, h', hdl')"
  shows "\<forall>c \<in> set (SetCookies resp). Secure c = TLS r \<and> HttpOnly c \<and> CookieName c = ''session''"
  using assms
  by (auto simp: launch_validation_def Launch_def Let_def Get_def JSON_def Redirect_def
      split: if_splits option.splits sum.splits prod.splits)

lemma Launch_enc_irrelevant:
  assumes "launch_validation cr fetch now r (h, hdl) = Inl f"
  shows "Launch cr enc' fetch now r (h, hdl) = Launch cr enc fetch now r (h, hdl)"
  using assms
  by (auto simp: launch_validation_def Launch_def Let_def Get_def JSON_def
      split: if_splits option.splits sum.splits prod.splits)


lemmas ex_launch_defs =
  launch_validation_def ex_launch_def ex_bad_launch_def ex_handler_def NewHandler_def
  NewHandlerWithConfig_def ex_store_def ex_heap_def ex_db_def ex_platform_def
  PostForm_id_token_def PostForm_def FindByClientID_def platform_First_def least_by_def
  JWTValidator_ValidateToken_def getKeyfunc_def NewJWTValidator_def ex_fetch_def
  ParseWithClaims_def ex_id_token_def ex_bad_token_def GetSigningMethod_def ex_crypto_def
  Validate_def verifyExpiresAt_def verifyNotBefore_def verifyAudience_def verifyIssuer_def
  ex_lti_claims_def Second_def Let_def

lemma ex_bad_launch_invalid:
  "launch_validation ex_crypto ex_fetch (2000 * Second) ex_bad_launch (ex_heap, ex_handler)
     = Inl (TokenValidationFailed (Errorf ''nonce mismatch''))"
  by (simp add: ex_launch_defs)

lemma ex_launch_valid:
  "launch_validation ex_crypto ex_fetch (2000 * Second) ex_launch (ex_heap, ex_handler)
     = Inr (ex_lti_claims, ex_platform, cell ex_heap 0)"
  by (simp add: ex_launch_defs)

lemma ex_launch_cookie:
  "SetCookies (fst (Launch ex_crypto ex_enc ex_fetch (2000 * Second) ex_launch (ex_heap, ex_handler)))
     \<noteq> []"
  by (simp add: Launch_def Get_def ex_launch_defs findOrCreateUser_def user_First_def
      user_Create_def BeforeCreate_def next_key_def zero_Time_def CreateToken_def
      CreateToken_claims_def SignedString_def NewWithClaims_def SigningMethodHS256_def
      Redirect_def NewStateStore_def NewSessionManager_def)



text \<open>
  C4. When a validation of the launch fails (the \<open>id_token\<close> or the state is missing, the
  state is not in the store, the platform is not found, the token is not valid), the response
  is an error of status 400 or 401 with no cookie and no redirect, the database, and with it
  every user, is as before, and the outcome is the same whatever the encoder of session
  tokens is: \<open>CreateToken\<close> has had no part in it. A cookie is set only when every
  validation has passed.
\<close>

theorem Launch_rejects_without_session:
  assumes "Launch cr enc fetch now r (h, hdl) = (resp, h', hdl')"
  shows "(\<forall>f. launch_validation cr fetch now r (h, hdl) = Inl f \<longrightarrow>
            (Code resp = StatusBadRequest \<or> Code resp = StatusUnauthorized) \<and> Body resp \<noteq> NoBody
            \<and> Location resp = None \<and> SetCookies resp = [] \<and> db hdl' = db hdl
            \<and> (\<forall>enc'. Launch cr enc' fetch now r (h, hdl) = (resp, h', hdl')))
    \<and> (SetCookies resp \<noteq> [] \<longrightarrow>
          (\<exists>claims platform stateData.
             launch_validation cr fetch now r (h, hdl) = Inr (claims, platform, stateData)))"
proof -
  have rej: "(Code resp = StatusBadRequest \<or> Code resp = StatusUnauthorized) \<and> Body resp \<noteq> NoBody
      \<and> Location resp = None \<and> SetCookies resp = [] \<and> db hdl' = db hdl
      \<and> (\<forall>enc'. Launch cr enc' fetch now r (h, hdl) = (resp, h', hdl'))"
    if f: "launch_validation cr fetch now r (h, hdl) = Inl f" for f
    using Launch_rejects [OF f assms] Launch_enc_irrelevant [OF f, of _ enc] assms by metis
  have "\<exists>claims platform stateData.
      launch_validation cr fetch now r (h, hdl) = Inr (claims, platform, stateData)"
    if "SetCookies resp \<noteq> []"
  proof (cases "launch_validation cr fetch now r (h, hdl)")
    case (Inl f)
    from rej [OF this] that show ?thesis by simp
  next
    case (Inr ok)
    then show ?thesis by (cases ok) auto
  qed
  with rej show ?thesis by blast
qed

theorem Launch_rejects_without_session_witness:
  "launch_validation ex_crypto ex_fetch (2000 * Second) ex_bad_launch (ex_heap, ex_handler)
     = Inl (TokenValidationFailed (Errorf ''nonce mismatch''))
   \<and> (\<exists>resp h' hdl'.
         Launch ex_crypto ex_enc ex_fetch (2000 * Second) ex_bad_launch (ex_heap, ex_handler)
           = (resp, h', hdl')
         \<and> Body resp \<noteq> NoBody \<and> Location resp = None \<and> SetCookies resp = []
         \<and> db hdl' = db ex_handler)
   \<and> (\<exists>resp h' hdl'.
         Launch ex_crypto ex_enc ex_fetch (2000 * Second) ex_launch (ex_heap, ex_handler)
           = (resp, h', hdl')
         \<and> SetCookies resp \<noteq> []
         \<and> launch_validation ex_crypto ex_fetch (2000 * Second) ex_launch (ex_heap, ex_handler)
             = Inr (ex_lti_claims, ex_platform, cell ex_heap 0))"
proof -
  obtain resp h' hdl' where bad:
    "Launch ex_crypto ex_enc ex_fetch (2000 * Second) ex_bad_launch (ex_heap, ex_handler)
       = (resp, h', hdl')"
    by (cases "Launch ex_crypto ex_enc ex_fetch (2000 * Second) ex_bad_launch (ex_heap, ex_handler)")
      auto
  obtain resp2 h2 hdl2 where good:
    "Launch ex_crypto ex_enc ex_fetch (2000 * Second) ex_launch (ex_heap, ex_handler)
       = (resp2, h2, hdl2)"
    by (cases "Launch ex_crypto ex_enc ex_fetch (2000 * Second) ex_launch (ex_heap, ex_handler)")
      auto
  from good ex_launch_cookie have cookie: "SetCookies resp2 \<noteq> []" by simp
  from Launch_rejects_without_session [OF bad] ex_bad_launch_invalid
  have "Body resp \<noteq> NoBody \<and> Location resp = None \<and> SetCookies resp = []
      \<and> db hdl' = db ex_handler"
    by simp
  moreover from Launch_rejects_without_session [OF good] cookie ex_launch_valid
  have "launch_validation ex_crypto ex_fetch (2000 * Second) ex_launch (ex_heap, ex_handler)
      = Inr (ex_lti_claims, ex_platform, cell ex_heap 0)"
    by simp
  ultimately show ?thesis
    using bad good cookie ex_bad_launch_invalid by simp
qed



section \<open>Properties of login initiation\<close>

lemmas ex_login_defs =
  ex_login_def DefaultQuery_def PostForm_def FindByIssuer_def platform_First_def least_by_def
  ex_db_def ex_db_ctl_def ex_platform_ctl_def ex_platform_def NewHandler_def
  NewHandlerWithConfig_def


lemma login_query_params:
  "login_query q0 clientID launchURL loginHint state nonce hint = q \<Longrightarrow>
     q ''scope'' = Some [''openid''] \<and> q ''response_type'' = Some [''id_token'']
     \<and> q ''client_id'' = Some [clientID] \<and> q ''redirect_uri'' = Some [launchURL]
     \<and> q ''login_hint'' = Some [loginHint] \<and> q ''state'' = Some [state]
     \<and> q ''response_mode'' = Some [''form_post''] \<and> q ''nonce'' = Some [nonce]
     \<and> q ''prompt'' = Some [''none'']
     \<and> q ''lti_message_hint'' = (if hint \<noteq> [] then Some [hint] else q0 ''lti_message_hint'')"
  by (auto simp: login_query_def Set_def Let_def)

text \<open>
  C7, as stated, fails: a request with all three parameters for a registered platform is
  not always answered by a redirect. \<open>LoginInitiation\<close> parses the platform's
  \<open>AuthEndpoint\<close> and answers 500 when that fails, here for an endpoint registered with a
  trailing line feed, which \<open>url.Parse\<close> refuses as a control character. The state has
  been stored by then.
\<close>

theorem LoginInitiation_bad_endpoint_counterexample:
  "DefaultQuery ex_login ''iss'' (PostForm ex_login ''iss'') = ''https://canvas.example.com''
   \<and> DefaultQuery ex_login ''login_hint'' (PostForm ex_login ''login_hint'') = ''user123''
   \<and> DefaultQuery ex_login ''target_link_uri'' (PostForm ex_login ''target_link_uri'')
       = ''https://app.com/launch''
   \<and> DefaultQuery ex_login ''client_id'' (PostForm ex_login ''client_id'') = []
   \<and> FindByIssuer ex_db_ctl ''https://canvas.example.com'' = Inr ex_platform_ctl
   \<and> map_sum id (\<lambda>res. (Code (fst res), Location (fst res)))
         (LoginInitiation ex_urllib ex_bytes1 ex_bytes2 1000 ex_login
            (empty_Heap, NewHandler ex_db_ctl))
       = Inr (StatusInternalServerError, None)"
  by (simp add: ex_login_defs LoginInitiation_def GenerateState_def GenerateNonce_def
      new_StateData_def url_Parse_def stringContainsCTLByte_def JSON_def Let_def)


text \<open>
  C7, amended. For a request with non-empty \<open>iss\<close>, \<open>login_hint\<close> and \<open>target_link_uri\<close>
  whose issuer is registered and whose \<open>client_id\<close>, when supplied, is the platform's, the
  store has afterwards, under the new state, an entry with the new nonce, the target link,
  the platform's client id and the time of the call. If the platform's authorization
  endpoint parses as a URL, the answer is a 302 redirect to that URL with its query
  replaced by one that holds \<open>scope=openid\<close>, \<open>response_type=id_token\<close>, the platform's
  \<open>client_id\<close>, the launch URL as \<open>redirect_uri\<close>, the \<open>login_hint\<close>, the new \<open>state\<close>,
  \<open>response_mode=form_post\<close>, the new \<open>nonce\<close> and \<open>prompt=none\<close>, and the \<open>lti_message_hint\<close>
  of the request when it has one (without one the handler sets none, and the parameter is
  whatever the endpoint's own query held). If the endpoint does not parse, the answer is
  500 with the error \<open>invalid auth endpoint\<close> and no \<open>Location\<close>.
\<close>

theorem LoginInitiation_redirects:
  fixes r :: Request and lib :: urllib and now :: time
  defines "iss \<equiv> DefaultQuery r ''iss'' (PostForm r ''iss'')"
    and "loginHint \<equiv> DefaultQuery r ''login_hint'' (PostForm r ''login_hint'')"
    and "targetLinkURI \<equiv> DefaultQuery r ''target_link_uri'' (PostForm r ''target_link_uri'')"
    and "clientID \<equiv> DefaultQuery r ''client_id'' (PostForm r ''client_id'')"
    and "hint \<equiv> DefaultQuery r ''lti_message_hint'' (PostForm r ''lti_message_hint'')"
  assumes params: "iss \<noteq> [] \<and> loginHint \<noteq> [] \<and> targetLinkURI \<noteq> []"
    and registered: "FindByIssuer (db hdl) iss = Inr platform"
    and client: "clientID = [] \<or> clientID = Platform.ClientID platform"
  shows "\<exists>resp h' hdl' p.
     LoginInitiation lib b1 b2 now r (h, hdl) = Inr (resp, h', hdl')
     \<and> states (stateStore hdl') (EncodeToString (map unat b1)) = Some p
     \<and> cell h' p = \<lparr>StateData.Nonce = EncodeToString (map unat b2),
                      StateData.TargetLinkURI = targetLinkURI,
                      StateData.ClientID = Platform.ClientID platform,
                      StateData.CreatedAt = now\<rparr>
     \<and> (\<forall>authURL. url_Parse lib (AuthEndpoint platform) = Inr authURL \<longrightarrow>
          (\<exists>q. Code resp = StatusFound
             \<and> Location resp = Some (url_String lib (authURL\<lparr>RawQuery := values_Encode lib q\<rparr>))
             \<and> q ''scope'' = Some [''openid''] \<and> q ''response_type'' = Some [''id_token'']
             \<and> q ''client_id'' = Some [Platform.ClientID platform]
             \<and> q ''redirect_uri'' = Some [getLaunchURL r]
             \<and> q ''login_hint'' = Some [loginHint]
             \<and> q ''state'' = Some [EncodeToString (map unat b1)]
             \<and> q ''response_mode'' = Some [''form_post'']
             \<and> q ''nonce'' = Some [EncodeToString (map unat b2)]
             \<and> q ''prompt'' = Some [''none'']
             \<and> q ''lti_message_hint'' = (if hint \<noteq> [] then Some [hint]
                                           else Query lib authURL ''lti_message_hint'')))
     \<and> (\<forall>err. url_Parse lib (AuthEndpoint platform) = Inl err \<longrightarrow>
          Code resp = StatusInternalServerError \<and> Body resp = JSONError ''invalid auth endpoint''
          \<and> Location resp = None \<and> SetCookies resp = [])"
proof -
  define h' where "h' = h\<lparr>cell := (cell h)(next_ptr h :=
                 \<lparr>StateData.Nonce = EncodeToString (map unat b2),
                  StateData.TargetLinkURI = targetLinkURI,
                  StateData.ClientID = Platform.ClientID platform,
                  StateData.CreatedAt = now\<rparr>),
             next_ptr := Suc (next_ptr h)\<rparr>"
  define hdl' where "hdl' = hdl\<lparr>stateStore := (stateStore hdl)\<lparr>states :=
                 (states (stateStore hdl))(EncodeToString (map unat b1) \<mapsto> next_ptr h)\<rparr>\<rparr>"
  define q where "q = (\<lambda>authURL. login_query (Query lib authURL) (Platform.ClientID platform)
      (getLaunchURL r) loginHint (EncodeToString (map unat b1)) (EncodeToString (map unat b2)) hint)"
  define resp where "resp = (case url_Parse lib (AuthEndpoint platform) of
       Inl err \<Rightarrow> JSON StatusInternalServerError (JSONError ''invalid auth endpoint'')
     | Inr authURL \<Rightarrow> Redirect [] StatusFound
         (url_String lib (authURL\<lparr>RawQuery := values_Encode lib (q authURL)\<rparr>)))"
  from client have c: "\<not> (clientID \<noteq> [] \<and> clientID \<noteq> Platform.ClientID platform)"
    by auto
  have run: "LoginInitiation lib b1 b2 now r (h, hdl) = Inr (resp, h', hdl')"
  proof (cases "url_Parse lib (AuthEndpoint platform)")
    case (Inl err)
    with params registered c show ?thesis
      unfolding LoginInitiation_def iss_def [symmetric] loginHint_def [symmetric]
        targetLinkURI_def [symmetric] clientID_def [symmetric] hint_def [symmetric]
      by (auto simp: Let_def GenerateState_def GenerateNonce_def new_StateData_def resp_def
          h'_def hdl'_def)
  next
    case (Inr authURL)
    with params registered c show ?thesis
      unfolding LoginInitiation_def iss_def [symmetric] loginHint_def [symmetric]
        targetLinkURI_def [symmetric] clientID_def [symmetric] hint_def [symmetric]
      by (auto simp: Let_def GenerateState_def GenerateNonce_def new_StateData_def q_def resp_def
          h'_def hdl'_def)
  qed
  have stored: "states (stateStore hdl') (EncodeToString (map unat b1)) = Some (next_ptr h)
      \<and> cell h' (next_ptr h) = \<lparr>StateData.Nonce = EncodeToString (map unat b2),
                      StateData.TargetLinkURI = targetLinkURI,
                      StateData.ClientID = Platform.ClientID platform,
                      StateData.CreatedAt = now\<rparr>"
    by (simp add: h'_def hdl'_def)
  have found: "\<exists>q. Code resp = StatusFound
             \<and> Location resp = Some (url_String lib (authURL\<lparr>RawQuery := values_Encode lib q\<rparr>))
             \<and> q ''scope'' = Some [''openid''] \<and> q ''response_type'' = Some [''id_token'']
             \<and> q ''client_id'' = Some [Platform.ClientID platform]
             \<and> q ''redirect_uri'' = Some [getLaunchURL r]
             \<and> q ''login_hint'' = Some [loginHint]
             \<and> q ''state'' = Some [EncodeToString (map unat b1)]
             \<and> q ''response_mode'' = Some [''form_post'']
             \<and> q ''nonce'' = Some [EncodeToString (map unat b2)]
             \<and> q ''prompt'' = Some [''none'']
             \<and> q ''lti_message_hint'' = (if hint \<noteq> [] then Some [hint]
                                           else Query lib authURL ''lti_message_hint'')"
    if "url_Parse lib (AuthEndpoint platform) = Inr authURL" for authURL
    apply (rule exI [of _ "q authURL"])
    using login_query_params [OF q_def [THEN fun_cong, symmetric], of authURL] that
    apply (simp add: resp_def Redirect_def)
    done
  have failed: "Code resp = StatusInternalServerError \<and> Body resp = JSONError ''invalid auth endpoint''
          \<and> Location resp = None \<and> SetCookies resp = []"
    if "url_Parse lib (AuthEndpoint platform) = Inl err" for err
    using that by (simp add: resp_def JSON_def)
  from run stored found failed show ?thesis
    by blast
qed

theorem LoginInitiation_redirects_witness:
  "(\<exists>resp h' hdl' q p.
     LoginInitiation ex_urllib ex_bytes1 ex_bytes2 1000 ex_login
       (empty_Heap, NewHandler ex_db) = Inr (resp, h', hdl')
     \<and> Code resp = StatusFound
     \<and> Location resp = Some (url_String ex_urllib
          (\<lparr>Scheme = [], URLHost = [], URLPath = ''https://canvas.example.com/api/lti/authorize'',
            RawQuery = values_Encode ex_urllib q, Fragment = []\<rparr>))
     \<and> q ''client_id'' = Some [''client-123''] \<and> q ''response_type'' = Some [''id_token'']
     \<and> q ''redirect_uri'' = Some [''http://localhost:8080/lti/launch'']
     \<and> q ''state'' = Some [EncodeToString (map unat ex_bytes1)]
     \<and> q ''nonce'' = Some [EncodeToString (map unat ex_bytes2)]
     \<and> q ''lti_message_hint'' = None
     \<and> states (stateStore hdl') (EncodeToString (map unat ex_bytes1)) = Some p
     \<and> StateData.Nonce (cell h' p) = EncodeToString (map unat ex_bytes2))
   \<and> (\<exists>resp h' hdl' p.
     LoginInitiation ex_urllib ex_bytes1 ex_bytes2 1000 ex_login
       (empty_Heap, NewHandler ex_db_ctl) = Inr (resp, h', hdl')
     \<and> Code resp = StatusInternalServerError \<and> Body resp = JSONError ''invalid auth endpoint''
     \<and> Location resp = None
     \<and> states (stateStore hdl') (EncodeToString (map unat ex_bytes1)) = Some p
     \<and> StateData.Nonce (cell h' p) = EncodeToString (map unat ex_bytes2))"
proof -
  have params: "DefaultQuery ex_login ''iss'' (PostForm ex_login ''iss'') \<noteq> []
      \<and> DefaultQuery ex_login ''login_hint'' (PostForm ex_login ''login_hint'') \<noteq> []
      \<and> DefaultQuery ex_login ''target_link_uri'' (PostForm ex_login ''target_link_uri'') \<noteq> []"
    by (simp add: ex_login_defs)
  have registered: "FindByIssuer (db (NewHandler ex_db))
      (DefaultQuery ex_login ''iss'' (PostForm ex_login ''iss'')) = Inr ex_platform"
    by (simp add: ex_login_defs)
  have registered_ctl: "FindByIssuer (db (NewHandler ex_db_ctl))
      (DefaultQuery ex_login ''iss'' (PostForm ex_login ''iss'')) = Inr ex_platform_ctl"
    by (simp add: ex_login_defs)
  have client: "DefaultQuery ex_login ''client_id'' (PostForm ex_login ''client_id'') = []
      \<or> DefaultQuery ex_login ''client_id'' (PostForm ex_login ''client_id'')
          = Platform.ClientID ex_platform"
    by (simp add: ex_login_defs)
  have client_ctl: "DefaultQuery ex_login ''client_id'' (PostForm ex_login ''client_id'') = []
      \<or> DefaultQuery ex_login ''client_id'' (PostForm ex_login ''client_id'')
          = Platform.ClientID ex_platform_ctl"
    by (simp add: ex_login_defs)
  have endpoint: "url_Parse ex_urllib (AuthEndpoint ex_platform)
      = Inr \<lparr>Scheme = [], URLHost = [], URLPath = ''https://canvas.example.com/api/lti/authorize'',
             RawQuery = [], Fragment = []\<rparr>"
    by (simp add: url_Parse_def stringContainsCTLByte_def ex_urllib_def ex_platform_def)
  have endpoint_ctl: "url_Parse ex_urllib (AuthEndpoint ex_platform_ctl)
      = Inl (Wrap ''parse'' (Errorf ''net/url: invalid control character in URL''))"
    by (simp add: url_Parse_def stringContainsCTLByte_def ex_platform_ctl_def)
  have hint: "DefaultQuery ex_login ''lti_message_hint'' (PostForm ex_login ''lti_message_hint'') = []"
    by (simp add: ex_login_defs)
  have launch: "getLaunchURL ex_login = ''http://localhost:8080/lti/launch''"
    by (simp add: getLaunchURL_def Header_Get_def ex_login_def)
  have noq: "Query ex_urllib \<lparr>Scheme = [], URLHost = [],
      URLPath = ''https://canvas.example.com/api/lti/authorize'', RawQuery = [], Fragment = []\<rparr>
      ''lti_message_hint'' = None"
    by (simp add: Query_def ex_urllib_def)
  have cid: "Platform.ClientID ex_platform = ''client-123''"
    by (simp add: ex_platform_def)
  note T = LoginInitiation_redirects [OF params registered client,
      of ex_urllib ex_bytes1 ex_bytes2 1000 empty_Heap]
  note U = LoginInitiation_redirects [OF params registered_ctl client_ctl,
      of ex_urllib ex_bytes1 ex_bytes2 1000 empty_Heap]
  have A: "\<exists>resp h' hdl' q p.
     LoginInitiation ex_urllib ex_bytes1 ex_bytes2 1000 ex_login
       (empty_Heap, NewHandler ex_db) = Inr (resp, h', hdl')
     \<and> Code resp = StatusFound
     \<and> Location resp = Some (url_String ex_urllib
          (\<lparr>Scheme = [], URLHost = [], URLPath = ''https://canvas.example.com/api/lti/authorize'',
            RawQuery = values_Encode ex_urllib q, Fragment = []\<rparr>))
     \<and> q ''client_id'' = Some [''client-123''] \<and> q ''response_type'' = Some [''id_token'']
     \<and> q ''redirect_uri'' = Some [''http://localhost:8080/lti/launch'']
     \<and> q ''state'' = Some [EncodeToString (map unat ex_bytes1)]
     \<and> q ''nonce'' = Some [EncodeToString (map unat ex_bytes2)]
     \<and> q ''lti_message_hint'' = None
     \<and> states (stateStore hdl') (EncodeToString (map unat ex_bytes1)) = Some p
     \<and> StateData.Nonce (cell h' p) = EncodeToString (map unat ex_bytes2)"
    using T
    apply (elim exE conjE)
    apply (drule spec [of _ "\<lparr>Scheme = [], URLHost = [],
        URLPath = ''https://canvas.example.com/api/lti/authorize'', RawQuery = [], Fragment = []\<rparr>"])
    apply (drule mp [OF _ endpoint])
    apply (elim exE conjE)
    apply (simp add: hint launch noq cid)
    apply blast
    done
  have B: "\<exists>resp h' hdl' p.
     LoginInitiation ex_urllib ex_bytes1 ex_bytes2 1000 ex_login
       (empty_Heap, NewHandler ex_db_ctl) = Inr (resp, h', hdl')
     \<and> Code resp = StatusInternalServerError \<and> Body resp = JSONError ''invalid auth endpoint''
     \<and> Location resp = None
     \<and> states (stateStore hdl') (EncodeToString (map unat ex_bytes1)) = Some p
     \<and> StateData.Nonce (cell h' p) = EncodeToString (map unat ex_bytes2)"
    using U
    apply (elim exE conjE)
    apply (drule spec [of _ "Wrap ''parse'' (Errorf ''net/url: invalid control character in URL'')"])
    apply (drule mp [OF _ endpoint_ctl])
    apply (elim exE conjE)
    apply simp
    done
  from A B show ?thesis
    by (rule conjI)
qed

end
